theory Spec2Isabelle
  imports Main "HOL-Library.AList" "HOL-Library.Char_ord" "HOL-Library.List_Lexorder"
    "HOL-Library.Word"
begin

section \<open>The persistent state (internal/state/state.go)\<close>

text \<open>
  A \<open>time.Time\<close> is an instant; the model keeps it as an integer count of clock units
  since Go's zero time, so that \<open>time.Time{}\<close> is \<open>0\<close> and \<open>IsZero\<close> is the test for it.
  Each call of \<open>time.Now()\<close> is an input of the function that makes it.
\<close>

type_synonym Time = int

definition time_zero :: Time where
  "time_zero = 0"

definition IsZero :: "Time \<Rightarrow> bool" where
  "IsZero t = (t = time_zero)"

record ProcessedFile =
  Filename :: string
  ProcessedAt :: Time
  ProfileUsed :: string

text \<open>
  The Go map \<open>map[string]ProcessedFile\<close> is an association list. A Go map holds each key
  once, which is the invariant \<open>distinct (map fst m)\<close>; the order of the list stands for
  the (unspecified) iteration order of the map. A \<open>map[string]bool\<close> that is only read is
  a partial function, read with Go's zero value \<open>false\<close> for a missing key.
\<close>

type_synonym ProcessedMap = "(string \<times> ProcessedFile) list"

definition lookup_bool :: "(string \<rightharpoonup> bool) \<Rightarrow> string \<Rightarrow> bool" where
  "lookup_bool m k = (case m k of None \<Rightarrow> False | Some b \<Rightarrow> b)"

text \<open>\<open>Version\<close> is a Go \<open>int\<close>, 64 bits wide on the platforms the program is built for.\<close>

record State =
  Version :: "64 word"
  CardID :: string
  LastRun :: Time
  ProcessedFiles :: ProcessedMap
  statePath :: string


text \<open>
  \<open>MarkProcessed\<close> reads the clock twice: \<open>t1\<close> is the reading stored in the entry,
  \<open>t2\<close> the one stored in \<open>LastRun\<close>. The parameter \<open>outputPath\<close> is unused, as in the
  source.
\<close>

definition MarkProcessed :: "string \<Rightarrow> string \<Rightarrow> string \<Rightarrow> Time \<Rightarrow> Time \<Rightarrow> State \<Rightarrow> State" where
  "MarkProcessed filename profileUsed outputPath t1 t2 s =
     s\<lparr>ProcessedFiles :=
          AList.update filename
            \<lparr>Filename = filename, ProcessedAt = t1, ProfileUsed = profileUsed\<rparr>
            (ProcessedFiles s),
        LastRun := t2\<rparr>"

fun GetProcessedFilesMap_loop :: "string list \<Rightarrow> (string \<rightharpoonup> bool) \<Rightarrow> (string \<rightharpoonup> bool)" where
  "GetProcessedFilesMap_loop [] result = result"
| "GetProcessedFilesMap_loop (filename # ks) result =
     GetProcessedFilesMap_loop ks (result(filename \<mapsto> True))"

definition GetProcessedFilesMap :: "State \<Rightarrow> (string \<rightharpoonup> bool)" where
  "GetProcessedFilesMap s = GetProcessedFilesMap_loop (map fst (ProcessedFiles s)) Map.empty"

definition GetProcessedCount :: "State \<Rightarrow> nat" where
  "GetProcessedCount s = length (ProcessedFiles s)"

text \<open>
  The loop of \<open>SyncWithCard\<close> ranges over the keys of the map and deletes while it
  ranges; Go visits every key that is not deleted before its turn exactly once, so the
  loop runs over the key list of the map as it was on entry.
\<close>

fun SyncWithCard_loop ::
  "string list \<Rightarrow> (string \<rightharpoonup> bool) \<Rightarrow> ProcessedMap \<Rightarrow> nat \<Rightarrow> ProcessedMap \<times> nat" where
  "SyncWithCard_loop [] filesOnCard m removed = (m, removed)"
| "SyncWithCard_loop (filename # ks) filesOnCard m removed =
     (if \<not> lookup_bool filesOnCard filename
      then SyncWithCard_loop ks filesOnCard (AList.delete filename m) (removed + 1)
      else SyncWithCard_loop ks filesOnCard m removed)"

definition SyncWithCard :: "(string \<rightharpoonup> bool) \<Rightarrow> State \<Rightarrow> State \<times> nat" where
  "SyncWithCard filesOnCard s =
     (case SyncWithCard_loop (map fst (ProcessedFiles s)) filesOnCard (ProcessedFiles s) 0 of
        (m, removed) \<Rightarrow> (s\<lparr>ProcessedFiles := m\<rparr>, removed))"

definition SetCardID :: "string \<Rightarrow> State \<Rightarrow> State" where
  "SetCardID ident s = s\<lparr>CardID := ident\<rparr>"

definition Clear :: "State \<Rightarrow> State \<times> nat" where
  "Clear s =
     (let count = length (ProcessedFiles s)
      in (s\<lparr>ProcessedFiles := [], CardID := [], LastRun := time_zero\<rparr>, count))"

record Stats =
  ProcessedCount :: nat
  StatsLastRun :: Time
  StatsCardID :: string
  FileSizeBytes :: int

text \<open>
  \<open>GetStats\<close> asks the file system for the size of the state file; \<open>stat_size\<close> is the
  answer (\<open>None\<close> when \<open>os.Stat\<close> fails, which leaves the field at zero).
\<close>

definition GetStats :: "int option \<Rightarrow> State \<Rightarrow> Stats" where
  "GetStats stat_size s =
     \<lparr>ProcessedCount = length (ProcessedFiles s),
      StatsLastRun = LastRun s,
      StatsCardID = CardID s,
      FileSizeBytes = (case stat_size of None \<Rightarrow> 0 | Some n \<Rightarrow> n)\<rparr>"

section \<open>Path and string functions of the Go library\<close>

text \<open>
  The functions of \<open>strings\<close> and \<open>path/filepath\<close> that the program calls, for the
  separator \<open>/\<close>. \<open>filepath.Clean\<close> is not modelled: it is the parameter \<open>clean\<close> of
  \<open>Join\<close> and of everything that joins paths. \<open>ToUpper\<close> maps the ASCII letters, which
  is what \<open>strings.ToUpper\<close> does to a file extension written in ASCII.
\<close>

definition HasPrefix :: "string \<Rightarrow> string \<Rightarrow> bool" where
  "HasPrefix s pre = (take (length pre) s = pre)"

definition HasSuffix :: "string \<Rightarrow> string \<Rightarrow> bool" where
  "HasSuffix s suf = (length suf \<le> length s \<and> drop (length s - length suf) s = suf)"

definition TrimSuffix :: "string \<Rightarrow> string \<Rightarrow> string" where
  "TrimSuffix s suf = (if HasSuffix s suf then take (length s - length suf) s else s)"

definition upper_char :: "char \<Rightarrow> char" where
  "upper_char c =
     (case map_of (zip ''abcdefghijklmnopqrstuvwxyz'' ''ABCDEFGHIJKLMNOPQRSTUVWXYZ'') c of
        None \<Rightarrow> c | Some u \<Rightarrow> u)"

definition ToUpper :: "string \<Rightarrow> string" where
  "ToUpper s = map upper_char s"

definition Ext :: "string \<Rightarrow> string" where
  "Ext path =
     (let last_elem = takeWhile (\<lambda>c. c \<noteq> CHR ''/'') (rev path)
      in if CHR ''.'' \<in> set last_elem
         then CHR ''.'' # rev (takeWhile (\<lambda>c. c \<noteq> CHR ''.'') last_elem)
         else [])"

definition Base :: "string \<Rightarrow> string" where
  "Base path =
     (if path = [] then ''.''
      else let stripped = dropWhile (\<lambda>c. c = CHR ''/'') (rev path);
               b = rev (takeWhile (\<lambda>c. c \<noteq> CHR ''/'') stripped)
           in if b = [] then ''/'' else b)"

definition Join :: "(string \<Rightarrow> string) \<Rightarrow> string \<Rightarrow> string \<Rightarrow> string" where
  "Join clean a b =
     (if a \<noteq> [] then clean (a @ ''/'' @ b)
      else if b \<noteq> [] then clean b
      else [])"

fun digits_of :: "nat \<Rightarrow> string" where
  "digits_of n =
     (if n < 10 then [''0123456789'' ! n]
      else digits_of (n div 10) @ [''0123456789'' ! (n mod 10)])"

declare digits_of.simps [simp del]

definition Sprintf_d :: "int \<Rightarrow> string" where
  "Sprintf_d i = (if i < 0 then CHR ''-'' # digits_of (nat (- i)) else digits_of (nat i))"

section \<open>The scanner\<close>

record FileInfo =
  Path :: string
  Name :: string
  Size :: int
  ModTime :: int
  IsRAW :: bool
  IsJPG :: bool
  BaseName :: string
  Extension :: string

record ScanResult =
  RAWFiles :: "FileInfo list"
  JPGFiles :: "FileInfo list"
  BasePath :: string

text \<open>
  The volume is a tree of files and directories. A directory lists its entries in the
  order in which \<open>filepath.Walk\<close> visits them (lexical by name). The tree is readable
  throughout, so the walk never hands an error to the callback.
\<close>

datatype node =
  File (node_name: string) (node_size: int) (node_mtime: int)
| Dir (node_name: string) (entries: "node list")

fun IsDir :: "node \<Rightarrow> bool" where
  "IsDir (Dir n es) = True"
| "IsDir (File n sz mt) = False"

fun info_Size :: "node \<Rightarrow> int" where
  "info_Size (File n sz mt) = sz"
| "info_Size (Dir n es) = 0"

fun info_ModTime :: "node \<Rightarrow> int" where
  "info_ModTime (File n sz mt) = mt"
| "info_ModTime (Dir n es) = 0"

fun lookup_entry :: "node \<Rightarrow> string \<Rightarrow> node option" where
  "lookup_entry (Dir n es) name = find (\<lambda>e. node_name e = name) es"
| "lookup_entry (File n sz mt) name = None"

text \<open>\<open>Walk\<close> lists the calls of the callback in order: the path and the entry of each.\<close>

fun Walk :: "(string \<Rightarrow> string) \<Rightarrow> string \<Rightarrow> node \<Rightarrow> (string \<times> node) list" where
  "Walk clean path (File n sz mt) = [(path, File n sz mt)]"
| "Walk clean path (Dir n es) =
     (path, Dir n es) # concat (map (\<lambda>e. Walk clean (Join clean path (node_name e)) e) es)"

text \<open>The callback that \<open>ScanForImages\<close> passes to \<open>filepath.Walk\<close>.\<close>

definition scan_visit ::
  "(string \<rightharpoonup> bool) \<Rightarrow> string \<Rightarrow> node \<Rightarrow> ScanResult \<Rightarrow> ScanResult" where
  "scan_visit rawExtensions path info result =
     (if IsDir info then result
      else if HasPrefix (node_name info) ''._'' then result
      else let ext = ToUpper (Ext path);
               baseName = TrimSuffix (node_name info) (Ext (node_name info));
               fileInfo = \<lparr>Path = path, Name = node_name info, Size = info_Size info,
                           ModTime = info_ModTime info, IsRAW = False, IsJPG = False,
                           BaseName = baseName, Extension = ext\<rparr>
           in if lookup_bool rawExtensions ext
              then result\<lparr>RAWFiles := RAWFiles result @ [fileInfo\<lparr>IsRAW := True\<rparr>]\<rparr>
              else if ext = ''.JPG'' \<or> ext = ''.JPEG''
              then result\<lparr>JPGFiles := JPGFiles result @ [fileInfo\<lparr>IsJPG := True\<rparr>]\<rparr>
              else result)"

text \<open>
  \<open>vol\<close> is what is mounted at \<open>basePath\<close>. Each search path comes with the entry that
  \<open>os.Stat\<close> finds there, \<open>None\<close> when there is none. The callback returns \<open>nil\<close> on every
  path, so the walk returns no error and neither does \<open>ScanForImages\<close>.
\<close>

definition ScanForImages ::
  "(string \<Rightarrow> string) \<Rightarrow> string \<Rightarrow> node \<Rightarrow> (string \<rightharpoonup> bool) \<Rightarrow> ScanResult" where
  "ScanForImages clean basePath vol rawExtensions =
     (let result = \<lparr>RAWFiles = [], JPGFiles = [], BasePath = basePath\<rparr>;
          searchPaths = [(Join clean basePath ''DCIM'', lookup_entry vol ''DCIM''),
                         (basePath, Some vol)]
      in fold (\<lambda>(searchPath, found) res.
                 case found of
                   None \<Rightarrow> res
                 | Some root \<Rightarrow>
                     fold (\<lambda>(path, info). scan_visit rawExtensions path info)
                       (Walk clean searchPath root) res)
           searchPaths result)"


fun FilterNewFiles_loop ::
  "FileInfo list \<Rightarrow> (string \<rightharpoonup> bool) \<Rightarrow> FileInfo list \<Rightarrow> FileInfo list" where
  "FilterNewFiles_loop [] processedFiles newFiles = newFiles"
| "FilterNewFiles_loop (f # files) processedFiles newFiles =
     (if \<not> lookup_bool processedFiles (Name f)
      then FilterNewFiles_loop files processedFiles (newFiles @ [f])
      else FilterNewFiles_loop files processedFiles newFiles)"

definition FilterNewFiles :: "FileInfo list \<Rightarrow> (string \<rightharpoonup> bool) \<Rightarrow> FileInfo list" where
  "FilterNewFiles files processedFiles = FilterNewFiles_loop files processedFiles []"

section \<open>The conversion pipeline (runWithRAWProcessing)\<close>

subsection \<open>The job list\<close>

text \<open>
  The files that the run converts: the RAW files of the scan that the state does not
  hold, cut to \<open>cfg.Limit\<close> when that is positive and smaller than their number. With no
  new file the function returns before it builds a pool, which is the empty list here.
  \<open>Limit\<close> and \<open>Workers\<close> are Go \<open>int\<close>s that are only compared, never computed with.
\<close>

definition newRAWFiles_of :: "int \<Rightarrow> State \<Rightarrow> ScanResult \<Rightarrow> FileInfo list" where
  "newRAWFiles_of Limit appState scanResult =
     (let processedMap = GetProcessedFilesMap appState;
          newRAWFiles = FilterNewFiles (RAWFiles scanResult) processedMap
      in if length newRAWFiles = 0 then []
         else if Limit > 0 \<and> int (length newRAWFiles) > Limit
              then take (nat Limit) newRAWFiles
              else newRAWFiles)"

text \<open>The loop that sends the jobs pairs each file with its position.\<close>

fun send_jobs :: "nat \<Rightarrow> FileInfo list \<Rightarrow> (nat \<times> FileInfo) list" where
  "send_jobs i [] = []"
| "send_jobs i (rawFile # fs) = (i, rawFile) # send_jobs (i + 1) fs"

definition run_jobs ::
  "(string \<Rightarrow> string) \<Rightarrow> int \<Rightarrow> State \<Rightarrow> string \<Rightarrow> node \<Rightarrow> (string \<rightharpoonup> bool)
     \<Rightarrow> (nat \<times> FileInfo) list" where
  "run_jobs clean Limit appState basePath vol rawExtensions =
     send_jobs 0 (newRAWFiles_of Limit appState (ScanForImages clean basePath vol rawExtensions))"

subsection \<open>The number of workers\<close>

definition defaultMaxWorkers :: int where
  "defaultMaxWorkers = 4"

definition numWorkers_of :: "int \<Rightarrow> int \<Rightarrow> nat \<Rightarrow> int" where
  "numWorkers_of Workers NumCPU len =
     (let numWorkers = Workers;
          numWorkers = (if numWorkers \<le> 0
                        then (let n = NumCPU in if n > defaultMaxWorkers then defaultMaxWorkers else n)
                        else numWorkers);
          numWorkers = (if numWorkers > int len then int len else numWorkers)
      in numWorkers)"

text \<open>The loop \<open>for w := 0; w < numWorkers; w++\<close> starts one worker in each round.\<close>

function spawn_workers :: "int \<Rightarrow> int \<Rightarrow> int list" where
  "spawn_workers w numWorkers =
     (if w < numWorkers then w # spawn_workers (w + 1) numWorkers else [])"
  by pat_completeness auto
termination
  by (relation "measure (\<lambda>(w, numWorkers). nat (numWorkers - w))") auto

declare spawn_workers.simps [simp del]

subsection \<open>The external converters\<close>

text \<open>
  What the world answers to a worker: the result of running a command (its combined
  output and its error, \<open>None\<close> for \<open>nil\<close>) and the result of \<open>os.Stat\<close> on a path.
  An error is its message.
\<close>

datatype stat_result = StatOK | StatNotExist | StatError

record ext_env =
  run_cmd :: "string \<Rightarrow> string list \<Rightarrow> string \<times> string option"
  stat_path :: "string \<Rightarrow> stat_result"

datatype ext_call = Exec string "string list"

record DNGConverterConfig =
  dng_ExecutablePath :: string
  dng_OutputDir :: string
  Compressed :: bool
  EmbedOriginal :: bool

record RawTherapeeConfig =
  rt_ExecutablePath :: string
  ProfilePath :: string
  rt_OutputDir :: string
  Quality :: int

text \<open>
  \<open>ConvertFile\<close> and \<open>ProcessFile\<close> return the path, the error, and the commands they ran.
\<close>

definition ConvertFile ::
  "(string \<Rightarrow> string) \<Rightarrow> ext_env \<Rightarrow> DNGConverterConfig \<Rightarrow> string
     \<Rightarrow> (string \<times> string option) \<times> ext_call list" where
  "ConvertFile clean env dc inputPath =
     (let baseName = TrimSuffix (Base inputPath) (Ext inputPath);
          outPath = Join clean (dng_OutputDir dc) (baseName @ ''.dng'');
          args = [''-c'', ''-d'', dng_OutputDir dc, ''-o'', baseName @ ''.dng'']
                 @ (if Compressed dc then [''-lossy''] else [])
                 @ (if EmbedOriginal dc then [''-e''] else [])
                 @ [inputPath];
          calls = [Exec (dng_ExecutablePath dc) args]
      in case run_cmd env (dng_ExecutablePath dc) args of
           (output, Some e) \<Rightarrow>
             (([], Some (''Adobe DNG Converter failed: '' @ e @ [CHR 0x0A] @ ''Output: '' @ output)),
              calls)
         | (output, None) \<Rightarrow>
             (if stat_path env outPath = StatNotExist
              then (let alternateOutputPath = Join clean (dng_OutputDir dc) (baseName @ ''.DNG'')
                    in if stat_path env alternateOutputPath = StatOK
                       then ((alternateOutputPath, None), calls)
                       else (([], Some (''DNG output file was not created: '' @ outPath
                                         @ [CHR 0x0A] @ ''Command output: '' @ output)),
                             calls))
              else ((outPath, None), calls)))"

definition ProcessFile ::
  "(string \<Rightarrow> string) \<Rightarrow> ext_env \<Rightarrow> RawTherapeeConfig \<Rightarrow> string
     \<Rightarrow> (string \<times> string option) \<times> ext_call list" where
  "ProcessFile clean env rt inputPath =
     (let baseName = TrimSuffix (Base inputPath) (Ext inputPath);
          outPath = Join clean (rt_OutputDir rt) (baseName @ ''.jpg'');
          args = [''-o'', outPath, ''-j'' @ Sprintf_d (Quality rt), ''-Y'']
                 @ (if ProfilePath rt \<noteq> [] then [''-p'', ProfilePath rt] else [])
                 @ [''-c'', inputPath];
          calls = [Exec (rt_ExecutablePath rt) args]
      in case run_cmd env (rt_ExecutablePath rt) args of
           (output, Some e) \<Rightarrow>
             (([], Some (''rawtherapee-cli failed: '' @ e @ [CHR 0x0A] @ ''Output: '' @ output)),
              calls)
         | (output, None) \<Rightarrow>
             (if stat_path env outPath = StatNotExist
              then (([], Some (''output file was not created: '' @ outPath)), calls)
              else ((outPath, None), calls)))"

definition GetProfileName :: "RawTherapeeConfig \<Rightarrow> string" where
  "GetProfileName rt =
     (if ProfilePath rt = [] then ''default'' else TrimSuffix (Base (ProfilePath rt)) ''.pp3'')"

subsection \<open>A worker, and the loop that collects the results\<close>

record processResult =
  index :: nat
  rawFile :: FileInfo
  outputPath :: string
  dngPath :: string
  elapsed :: int
  err :: "string option"

text \<open>
  The body of a worker's loop for one job: the result it sends and the commands it ran.
  \<open>dngConverter\<close> is \<open>None\<close> for the \<open>nil\<close> converter; \<open>since\<close> is what \<open>time.Since\<close>
  returns when the worker reads it.
\<close>

definition worker_job ::
  "(string \<Rightarrow> string) \<Rightarrow> ext_env \<Rightarrow> DNGConverterConfig option \<Rightarrow> RawTherapeeConfig \<Rightarrow> int
     \<Rightarrow> nat \<times> FileInfo \<Rightarrow> processResult \<times> ext_call list" where
  "worker_job clean env dngConverter rt since job =
     (case dngConverter of
        Some dc \<Rightarrow>
          (case ConvertFile clean env dc (Path (snd job)) of
             ((p, Some e), calls) \<Rightarrow>
               (\<lparr>index = fst job, rawFile = snd job, outputPath = [], dngPath = [],
                 elapsed = since, err = Some (''DNG conversion failed: '' @ e)\<rparr>, calls)
           | ((p, None), calls) \<Rightarrow>
               (case ProcessFile clean env rt p of
                  ((out, e), calls') \<Rightarrow>
                    (\<lparr>index = fst job, rawFile = snd job, outputPath = out, dngPath = p,
                      elapsed = since, err = e\<rparr>, calls @ calls')))
      | None \<Rightarrow>
          (case ProcessFile clean env rt (Path (snd job)) of
             ((out, e), calls) \<Rightarrow>
               (\<lparr>index = fst job, rawFile = snd job, outputPath = out, dngPath = [],
                 elapsed = since, err = e\<rparr>, calls)))"

text \<open>
  The consumer reads the results in the order in which the workers complete them, which
  is any order; \<open>collect_results\<close> takes that order as a list. \<open>clock k\<close> gives the two
  readings of the clock that \<open>MarkProcessed\<close> makes for the \<open>k\<close>-th result read.
\<close>

record collected =
  appState :: State
  processedJPGs :: "string list"
  cameraJPGs :: "string list"
  dngFilesToCleanup :: "string list"
  processedCount :: nat
  totalRawProcessingTime :: int



section \<open>Saving and loading the state\<close>

subsection \<open>JSON documents\<close>

text \<open>
  \<open>encoding/json\<close> is modelled on documents, not on bytes: a JSON text is the tree it
  spells, with the members of an object in the order of the text. \<open>JNum\<close> is a number
  written as an integer, \<open>JFrac\<close> any other number. A string of a document is the
  string that its text spells, which is always valid UTF-8: the encoder writes
  \<open>U+FFFD\<close> for every byte of a Go string that is not part of a well-formed UTF-8
  sequence (\<open>utf8_coerce\<close>). The text of a \<open>time.Time\<close> is given by the functions of a
  \<open>time_codec\<close>: \<open>time_format\<close> is \<open>Time.MarshalJSON\<close>, which fails for a year outside
  0..9999, and \<open>time_parse\<close> is the RFC 3339 parser of \<open>Time.UnmarshalJSON\<close>.
  Toolchains differ in what the decoder does after an error of \<open>Time.UnmarshalJSON\<close>:
  it stops there, or it keeps the error and goes on with the later members;
  \<open>stops_at_time_error\<close> says which.
\<close>

datatype json =
  JNull
| JBool bool
| JNum int
| JFrac
| JStr string
| JArr "json list"
| JObj "(string \<times> json) list"

record time_codec =
  time_format :: "Time \<Rightarrow> string option"
  time_parse :: "string \<Rightarrow> Time option"
  stops_at_time_error :: bool

subsection \<open>UTF-8\<close>

text \<open>
  \<open>rune_size s\<close> is the number of bytes of the well-formed UTF-8 sequence at the head of
  \<open>s\<close>, and 0 when there is none (\<open>utf8.DecodeRuneInString\<close> then returns
  \<open>RuneError\<close> with size 1). The ranges of the first and the second byte are those of
  the tables \<open>first\<close> and \<open>acceptRanges\<close> of package \<open>unicode/utf8\<close>.
\<close>

definition byte_in :: "nat \<Rightarrow> nat \<Rightarrow> char \<Rightarrow> bool" where
  "byte_in lo hi c = (lo \<le> of_char c \<and> (of_char c :: nat) \<le> hi)"

fun continuation :: "nat \<Rightarrow> string \<Rightarrow> bool" where
  "continuation 0 r = True"
| "continuation (Suc n) [] = False"
| "continuation (Suc n) (c # r) = (byte_in 0x80 0xBF c \<and> continuation n r)"

fun second_byte :: "nat \<Rightarrow> nat \<Rightarrow> nat \<Rightarrow> string \<Rightarrow> bool" where
  "second_byte lo hi n [] = False"
| "second_byte lo hi n (c # r) = (byte_in lo hi c \<and> continuation n r)"

definition rune_size :: "string \<Rightarrow> nat" where
  "rune_size s =
     (case s of
        [] \<Rightarrow> 0
      | c # r \<Rightarrow>
          if byte_in 0x00 0x7F c then 1
          else if byte_in 0xC2 0xDF c then (if second_byte 0x80 0xBF 0 r then 2 else 0)
          else if byte_in 0xE0 0xE0 c then (if second_byte 0xA0 0xBF 1 r then 3 else 0)
          else if byte_in 0xE1 0xEC c \<or> byte_in 0xEE 0xEF c
               then (if second_byte 0x80 0xBF 1 r then 3 else 0)
          else if byte_in 0xED 0xED c then (if second_byte 0x80 0x9F 1 r then 3 else 0)
          else if byte_in 0xF0 0xF0 c then (if second_byte 0x90 0xBF 2 r then 4 else 0)
          else if byte_in 0xF1 0xF3 c then (if second_byte 0x80 0xBF 2 r then 4 else 0)
          else if byte_in 0xF4 0xF4 c then (if second_byte 0x80 0x8F 2 r then 4 else 0)
          else 0)"

text \<open>
  The encoder's loop over a string: a byte that starts a well-formed sequence is copied
  with the rest of the sequence (\<open>coerce_from n\<close> copies the \<open>n\<close> bytes that remain of
  it); any other byte becomes \<open>U+FFFD\<close>, whose UTF-8 encoding is \<open>EF BF BD\<close>. Escapes
  are not modelled: the decoder undoes them.
\<close>

fun coerce_from :: "nat \<Rightarrow> string \<Rightarrow> string" where
  "coerce_from n [] = []"
| "coerce_from (Suc n) (c # r) = c # coerce_from n r"
| "coerce_from 0 (c # r) =
     (case rune_size (c # r) of
        0 \<Rightarrow> [CHR 0xEF, CHR 0xBF, CHR 0xBD] @ coerce_from 0 r
      | Suc n \<Rightarrow> c # coerce_from n r)"

definition utf8_coerce :: "string \<Rightarrow> string" where
  "utf8_coerce s = coerce_from 0 s"

definition valid_utf8 :: "string \<Rightarrow> bool" where
  "valid_utf8 s = (utf8_coerce s = s)"

subsection \<open>Marshal\<close>

definition marshal_ProcessedFile :: "time_codec \<Rightarrow> ProcessedFile \<Rightarrow> json option" where
  "marshal_ProcessedFile tc pf =
     (case time_format tc (ProcessedAt pf) of
        None \<Rightarrow> None
      | Some at \<Rightarrow>
          Some (JObj ([(''filename'', JStr (utf8_coerce (Filename pf))),
                       (''processed_at'', JStr at)]
                      @ (if ProfileUsed pf = [] then []
                         else [(''profile_used'', JStr (utf8_coerce (ProfileUsed pf)))]))))"

fun marshal_entries :: "time_codec \<Rightarrow> ProcessedMap \<Rightarrow> (string \<times> json) list option" where
  "marshal_entries tc [] = Some []"
| "marshal_entries tc ((k, pf) # m) =
     (case marshal_ProcessedFile tc pf of
        None \<Rightarrow> None
      | Some j \<Rightarrow>
          (case marshal_entries tc m of
             None \<Rightarrow> None
           | Some js \<Rightarrow> Some ((utf8_coerce k, j) # js)))"

text \<open>
  The document of a state: the exported fields in the order of the struct, \<open>card_id\<close>
  and \<open>profile_used\<close> left out when empty, the map as an object with its keys sorted.
  The keys are sorted as the Go strings they are and coerced when they are written.
  \<open>None\<close> is the error of \<open>json.MarshalIndent\<close>.
\<close>

definition MarshalIndent :: "time_codec \<Rightarrow> State \<Rightarrow> json option" where
  "MarshalIndent tc s =
     (case time_format tc (LastRun s) of
        None \<Rightarrow> None
      | Some lr \<Rightarrow>
          (case marshal_entries tc (sort_key fst (ProcessedFiles s)) of
             None \<Rightarrow> None
           | Some es \<Rightarrow>
               Some (JObj ([(''version'', JNum (sint (Version s)))]
                           @ (if CardID s = [] then []
                              else [(''card_id'', JStr (utf8_coerce (CardID s)))])
                           @ [(''last_run'', JStr lr), (''processed_files'', JObj es)]))))"

subsection \<open>Unmarshal\<close>

text \<open>
  \<open>json.Unmarshal\<close> goes through the members of an object in order. A value of the
  wrong kind for its field is a type error: the field is skipped, the error is kept and
  the decoding goes on (\<open>DecTypeError\<close>). An error of an \<open>UnmarshalJSON\<close> method, which
  \<open>time.Time\<close> has, stops the decoding where it is (\<open>DecAbort\<close>) or is kept like a type
  error, as \<open>stops_at_time_error\<close> says. \<open>null\<close> leaves a field as it is and empties a
  map. The value that comes with the status is what the target holds when \<open>Unmarshal\<close>
  returns.

  A member belongs to the field whose name it has, also when the two differ in case:
  \<open>fold_name\<close> brings a member name to the form in which the decoder compares it with
  the (lower-case ASCII) names of the fields. Besides the ASCII capitals, two characters
  fold to an ASCII letter: \<open>U+017F\<close> (bytes \<open>C5 BF\<close>) to \<open>s\<close> and \<open>U+212A\<close> (bytes
  \<open>E2 84 AA\<close>) to \<open>k\<close>.
\<close>

definition lower_char :: "char \<Rightarrow> char" where
  "lower_char c =
     (case map_of (zip ''ABCDEFGHIJKLMNOPQRSTUVWXYZ'' ''abcdefghijklmnopqrstuvwxyz'') c of
        None \<Rightarrow> c | Some l \<Rightarrow> l)"

fun fold_name :: "string \<Rightarrow> string" where
  "fold_name (a # b # c # r) =
     (if a = CHR 0xE2 \<and> b = CHR 0x84 \<and> c = CHR 0xAA then CHR ''k'' # fold_name r
      else if a = CHR 0xC5 \<and> b = CHR 0xBF then CHR ''s'' # fold_name (c # r)
      else lower_char a # fold_name (b # c # r))"
| "fold_name [a, b] =
     (if a = CHR 0xC5 \<and> b = CHR 0xBF then ''s'' else lower_char a # fold_name [b])"
| "fold_name [a] = [lower_char a]"
| "fold_name [] = []"

declare fold_name.simps [simp del]

datatype dec_status = DecOK | DecTypeError | DecAbort

fun dec_both :: "dec_status \<Rightarrow> dec_status \<Rightarrow> dec_status" where
  "dec_both DecAbort st = DecAbort"
| "dec_both st DecAbort = DecAbort"
| "dec_both DecTypeError st = DecTypeError"
| "dec_both DecOK st = st"

fun dec_members ::
  "(string \<Rightarrow> json \<Rightarrow> 'a \<Rightarrow> dec_status \<times> 'a) \<Rightarrow> (string \<times> json) list \<Rightarrow> 'a \<Rightarrow> dec_status \<times> 'a" where
  "dec_members f [] x = (DecOK, x)"
| "dec_members f ((k, v) # ms) x =
     (case f k v x of
        (DecAbort, x') \<Rightarrow> (DecAbort, x')
      | (st, x') \<Rightarrow> (case dec_members f ms x' of (st', x'') \<Rightarrow> (dec_both st st', x'')))"

fun dec_string :: "json \<Rightarrow> string \<Rightarrow> dec_status \<times> string" where
  "dec_string JNull cur = (DecOK, cur)"
| "dec_string (JStr s) cur = (DecOK, s)"
| "dec_string v cur = (DecTypeError, cur)"

fun dec_int :: "json \<Rightarrow> 64 word \<Rightarrow> dec_status \<times> 64 word" where
  "dec_int JNull cur = (DecOK, cur)"
| "dec_int (JNum i) cur =
     (if - (2 ^ 63) \<le> i \<and> i < 2 ^ 63 then (DecOK, word_of_int i) else (DecTypeError, cur))"
| "dec_int v cur = (DecTypeError, cur)"

fun dec_time :: "time_codec \<Rightarrow> json \<Rightarrow> Time \<Rightarrow> dec_status \<times> Time" where
  "dec_time tc JNull cur = (DecOK, cur)"
| "dec_time tc (JStr s) cur =
     (case time_parse tc s of
        None \<Rightarrow> (if stops_at_time_error tc then DecAbort else DecTypeError, time_zero)
      | Some t \<Rightarrow> (DecOK, t))"
| "dec_time tc v cur = (if stops_at_time_error tc then DecAbort else DecTypeError, cur)"

definition ProcessedFile_field ::
  "time_codec \<Rightarrow> string \<Rightarrow> json \<Rightarrow> ProcessedFile \<Rightarrow> dec_status \<times> ProcessedFile" where
  "ProcessedFile_field tc k v pf =
     (if fold_name k = ''filename''
      then (case dec_string v (Filename pf) of (st, x) \<Rightarrow> (st, pf\<lparr>Filename := x\<rparr>))
      else if fold_name k = ''processed_at''
      then (case dec_time tc v (ProcessedAt pf) of (st, x) \<Rightarrow> (st, pf\<lparr>ProcessedAt := x\<rparr>))
      else if fold_name k = ''profile_used''
      then (case dec_string v (ProfileUsed pf) of (st, x) \<Rightarrow> (st, pf\<lparr>ProfileUsed := x\<rparr>))
      else (DecOK, pf))"

fun dec_ProcessedFile :: "time_codec \<Rightarrow> json \<Rightarrow> ProcessedFile \<Rightarrow> dec_status \<times> ProcessedFile" where
  "dec_ProcessedFile tc JNull pf = (DecOK, pf)"
| "dec_ProcessedFile tc (JObj ms) pf = dec_members (ProcessedFile_field tc) ms pf"
| "dec_ProcessedFile tc v pf = (DecTypeError, pf)"

definition zero_ProcessedFile :: ProcessedFile where
  "zero_ProcessedFile = \<lparr>Filename = [], ProcessedAt = time_zero, ProfileUsed = []\<rparr>"

text \<open>A member of the object becomes an entry of the map unless its decoding stops.\<close>

definition map_member ::
  "time_codec \<Rightarrow> string \<Rightarrow> json \<Rightarrow> ProcessedMap \<Rightarrow> dec_status \<times> ProcessedMap" where
  "map_member tc k v m =
     (case dec_ProcessedFile tc v zero_ProcessedFile of
        (DecAbort, pf) \<Rightarrow> (DecAbort, m)
      | (st, pf) \<Rightarrow> (st, AList.update k pf m))"

fun dec_map :: "time_codec \<Rightarrow> json \<Rightarrow> ProcessedMap \<Rightarrow> dec_status \<times> ProcessedMap" where
  "dec_map tc JNull m = (DecOK, [])"
| "dec_map tc (JObj ms) m = dec_members (map_member tc) ms m"
| "dec_map tc v m = (DecTypeError, m)"

fun dec_elements :: "time_codec \<Rightarrow> json list \<Rightarrow> dec_status \<times> ProcessedFile list" where
  "dec_elements tc [] = (DecOK, [])"
| "dec_elements tc (v # vs) =
     (case dec_ProcessedFile tc v zero_ProcessedFile of
        (DecAbort, pf) \<Rightarrow> (DecAbort, [pf])
      | (st, pf) \<Rightarrow> (case dec_elements tc vs of (st', pfs) \<Rightarrow> (dec_both st st', pf # pfs)))"

fun dec_slice :: "time_codec \<Rightarrow> json \<Rightarrow> ProcessedFile list \<Rightarrow> dec_status \<times> ProcessedFile list" where
  "dec_slice tc JNull cur = (DecOK, [])"
| "dec_slice tc (JArr vs) cur = dec_elements tc vs"
| "dec_slice tc v cur = (DecTypeError, cur)"

definition State_field :: "time_codec \<Rightarrow> string \<Rightarrow> json \<Rightarrow> State \<Rightarrow> dec_status \<times> State" where
  "State_field tc k v s =
     (if fold_name k = ''version''
      then (case dec_int v (Version s) of (st, x) \<Rightarrow> (st, s\<lparr>Version := x\<rparr>))
      else if fold_name k = ''card_id''
      then (case dec_string v (CardID s) of (st, x) \<Rightarrow> (st, s\<lparr>CardID := x\<rparr>))
      else if fold_name k = ''last_run''
      then (case dec_time tc v (LastRun s) of (st, x) \<Rightarrow> (st, s\<lparr>LastRun := x\<rparr>))
      else if fold_name k = ''processed_files''
      then (case dec_map tc v (ProcessedFiles s) of (st, x) \<Rightarrow> (st, s\<lparr>ProcessedFiles := x\<rparr>))
      else (DecOK, s))"

fun Unmarshal_State :: "time_codec \<Rightarrow> json \<Rightarrow> State \<Rightarrow> dec_status \<times> State" where
  "Unmarshal_State tc JNull s = (DecOK, s)"
| "Unmarshal_State tc (JObj ms) s = dec_members (State_field tc) ms s"
| "Unmarshal_State tc v s = (DecTypeError, s)"

record LegacyState =
  LastProcessedFile :: string
  LastProcessedTimestamp :: Time
  LegacyProcessedFiles :: "ProcessedFile list"

definition LegacyState_field ::
  "time_codec \<Rightarrow> string \<Rightarrow> json \<Rightarrow> LegacyState \<Rightarrow> dec_status \<times> LegacyState" where
  "LegacyState_field tc k v l =
     (if fold_name k = ''last_processed_file''
      then (case dec_string v (LastProcessedFile l) of
              (st, x) \<Rightarrow> (st, l\<lparr>LastProcessedFile := x\<rparr>))
      else if fold_name k = ''last_processed_timestamp''
      then (case dec_time tc v (LastProcessedTimestamp l) of
              (st, x) \<Rightarrow> (st, l\<lparr>LastProcessedTimestamp := x\<rparr>))
      else if fold_name k = ''processed_files''
      then (case dec_slice tc v (LegacyProcessedFiles l) of
              (st, x) \<Rightarrow> (st, l\<lparr>LegacyProcessedFiles := x\<rparr>))
      else (DecOK, l))"

fun Unmarshal_LegacyState :: "time_codec \<Rightarrow> json \<Rightarrow> LegacyState \<Rightarrow> dec_status \<times> LegacyState" where
  "Unmarshal_LegacyState tc JNull l = (DecOK, l)"
| "Unmarshal_LegacyState tc (JObj ms) l = dec_members (LegacyState_field tc) ms l"
| "Unmarshal_LegacyState tc v l = (DecTypeError, l)"

subsection \<open>The state file\<close>

text \<open>
  What a file holds: the text of a document, nothing (a file just created or truncated),
  a proper beginning of the text of a document, or bytes that are no JSON text. Only the
  first can be parsed.
\<close>

datatype file_content = Document json | Empty | Torn json | NotJSON

type_synonym filesystem = "string \<rightharpoonup> file_content"

text \<open>
  \<open>os.WriteFile\<close> opens the named file with \<open>O_WRONLY|O_CREATE|O_TRUNC\<close> and then writes
  the data to it. The file system sees the steps one after the other, and a crash leaves
  it after any number of them. \<open>Rename\<close> is the step of \<open>os.Rename\<close>.
\<close>

datatype fs_step =
  Truncate string
| WriteSome string json
| WriteRest string json
| Rename string string

fun fs_apply :: "fs_step \<Rightarrow> filesystem \<Rightarrow> filesystem" where
  "fs_apply (Truncate p) fs = fs(p \<mapsto> Empty)"
| "fs_apply (WriteSome p doc) fs = fs(p \<mapsto> Torn doc)"
| "fs_apply (WriteRest p doc) fs = fs(p \<mapsto> Document doc)"
| "fs_apply (Rename old new) fs = (fs(new := fs old))(old := None)"

definition WriteFile :: "string \<Rightarrow> json \<Rightarrow> fs_step list" where
  "WriteFile name doc = [Truncate name, WriteSome name doc, WriteRest name doc]"

definition run_steps :: "fs_step list \<Rightarrow> filesystem \<Rightarrow> filesystem" where
  "run_steps steps fs = fold fs_apply steps fs"

text \<open>The file system after a crash that lets the first \<open>k\<close> steps through.\<close>

definition crash_after :: "nat \<Rightarrow> fs_step list \<Rightarrow> filesystem \<Rightarrow> filesystem" where
  "crash_after k steps fs = run_steps (take k steps) fs"

datatype state_error = MkdirFailed | ReadFailed | ParseFailed | MarshalFailed | WriteFailed

text \<open>
  \<open>Save\<close> has two sides: the steps it asks of the file system, and the error it returns
  (\<open>write_failed\<close> says whether \<open>os.WriteFile\<close> returned an error).
\<close>

definition Save_steps :: "time_codec \<Rightarrow> State \<Rightarrow> fs_step list" where
  "Save_steps tc s =
     (case MarshalIndent tc s of
        None \<Rightarrow> []
      | Some data \<Rightarrow> WriteFile (statePath s) data)"

definition Save :: "time_codec \<Rightarrow> bool \<Rightarrow> State \<Rightarrow> state_error option" where
  "Save tc write_failed s =
     (case MarshalIndent tc s of
        None \<Rightarrow> Some MarshalFailed
      | Some data \<Rightarrow> if write_failed then Some WriteFailed else None)"

datatype read_result = ReadNotExist | ReadError | ReadData file_content

definition ReadFile :: "filesystem \<Rightarrow> string \<Rightarrow> read_result" where
  "ReadFile fs name = (case fs name of None \<Rightarrow> ReadNotExist | Some c \<Rightarrow> ReadData c)"

fun parse_content :: "file_content \<Rightarrow> json option" where
  "parse_content (Document doc) = Some doc"
| "parse_content c = None"

fun migrate_loop :: "ProcessedFile list \<Rightarrow> ProcessedMap \<Rightarrow> ProcessedMap" where
  "migrate_loop [] m = m"
| "migrate_loop (pf # pfs) m = migrate_loop pfs (AList.update (Filename pf) pf m)"

text \<open>
  \<open>Load\<close> gets what \<open>os.MkdirAll\<close> and \<open>os.ReadFile\<close> answer. It returns the state and
  the steps of the \<open>Save\<close> that the migration of a legacy file makes; the error of that
  \<open>Save\<close> is only printed. Both calls of \<open>Unmarshal\<close> refuse bytes that are no JSON text
  before they touch their target.
\<close>

definition Load ::
  "time_codec \<Rightarrow> string \<Rightarrow> bool \<Rightarrow> read_result \<Rightarrow> state_error + State \<times> fs_step list" where
  "Load tc path mkdir_ok rd =
     (let state = \<lparr>Version = 2, CardID = [], LastRun = time_zero, ProcessedFiles = [],
                   statePath = path\<rparr>
      in if \<not> mkdir_ok then Inl MkdirFailed
         else case rd of
           ReadNotExist \<Rightarrow> Inr (state, [])
         | ReadError \<Rightarrow> Inl ReadFailed
         | ReadData c \<Rightarrow>
             (case parse_content c of
                None \<Rightarrow> Inl ParseFailed
              | Some data \<Rightarrow>
                  (case Unmarshal_State tc data state of
                     (DecOK, state) \<Rightarrow> Inr (state\<lparr>statePath := path\<rparr>, [])
                   | (st, state) \<Rightarrow>
                       (case Unmarshal_LegacyState tc data
                               \<lparr>LastProcessedFile = [], LastProcessedTimestamp = time_zero,
                                LegacyProcessedFiles = []\<rparr> of
                          (DecOK, legacy) \<Rightarrow>
                            (let state = state\<lparr>ProcessedFiles :=
                                                 migrate_loop (LegacyProcessedFiles legacy) [],
                                               LastRun := LastProcessedTimestamp legacy,
                                               Version := 2,
                                               statePath := path\<rparr>
                             in Inr (state, Save_steps tc state))
                        | (st', legacy) \<Rightarrow> Inl ParseFailed))))"

subsection \<open>Documents of the two schemas\<close>

text \<open>
  A stored record is given by its three texts: file name, time of processing and
  profile (left out of the document when empty, as the encoder does). A legacy file
  lists the records; a file of the current schema holds them in an object under their
  file names.
\<close>

definition record_json :: "string \<times> string \<times> string \<Rightarrow> json" where
  "record_json r =
     (case r of (f, at, p) \<Rightarrow>
        JObj ([(''filename'', JStr f), (''processed_at'', JStr at)]
              @ (if p = [] then [] else [(''profile_used'', JStr p)])))"

definition legacy_document :: "string \<Rightarrow> string \<Rightarrow> (string \<times> string \<times> string) list \<Rightarrow> json" where
  "legacy_document lf lts recs =
     JObj [(''last_processed_file'', JStr lf), (''last_processed_timestamp'', JStr lts),
           (''processed_files'', JArr (map record_json recs))]"

definition current_document :: "string \<Rightarrow> (string \<times> string \<times> string) list \<Rightarrow> json" where
  "current_document lts recs =
     JObj [(''version'', JNum 2), (''last_run'', JStr lts),
           (''processed_files'', JObj (map (\<lambda>r. (fst r, record_json r)) recs))]"

definition loaded_state :: "state_error + State \<times> fs_step list \<Rightarrow> state_error + State" where
  "loaded_state r = (case r of Inl e \<Rightarrow> Inl e | Inr (s, steps) \<Rightarrow> Inr s)"

text \<open>What a stored entry and a stored record come back as.\<close>

definition reloaded :: "time_codec \<Rightarrow> ProcessedFile \<Rightarrow> ProcessedFile" where
  "reloaded tc pf =
     pf\<lparr>ProcessedAt := the (time_parse tc (the (time_format tc (ProcessedAt pf))))\<rparr>"

definition rec_pf :: "time_codec \<Rightarrow> string \<times> string \<times> string \<Rightarrow> ProcessedFile" where
  "rec_pf tc r = \<lparr>Filename = fst r, ProcessedAt = the (time_parse tc (fst (snd r))),
                  ProfileUsed = snd (snd r)\<rparr>"

section \<open>Concrete inputs\<close>

text \<open>A codec that writes an instant \<open>t \<ge> 0\<close> as \<open>t\<close> strokes and reads it back.\<close>

definition example_codec :: time_codec where
  "example_codec =
     \<lparr>time_format = (\<lambda>t. if 0 \<le> t then Some (replicate (nat t) CHR ''I'') else None),
      time_parse = (\<lambda>str. if set str \<subseteq> {CHR ''I''} then Some (int (length str)) else None),
      stops_at_time_error = True\<rparr>"

definition example_state :: State where
  "example_state =
     \<lparr>Version = 2, CardID = ''card'', LastRun = 5,
      ProcessedFiles =
        [(''Z.ORF'', \<lparr>Filename = ''Z.ORF'', ProcessedAt = 4, ProfileUsed = ''vivid''\<rparr>),
         (''A.ORF'', \<lparr>Filename = ''A.ORF'', ProcessedAt = 3, ProfileUsed = []\<rparr>)],
      statePath = ''/home/u/.camera-to-immich/state.json''\<rparr>"

definition example_doc :: json where
  "example_doc =
     JObj [(''version'', JNum 2), (''card_id'', JStr ''card''), (''last_run'', JStr ''IIIII''),
           (''processed_files'',
            JObj [(''A.ORF'', JObj [(''filename'', JStr ''A.ORF''), (''processed_at'', JStr ''III'')]),
                  (''Z.ORF'', JObj [(''filename'', JStr ''Z.ORF''), (''processed_at'', JStr ''IIII''),
                                    (''profile_used'', JStr ''vivid'')])])]"

definition previous_doc :: json where
  "previous_doc =
     JObj [(''version'', JNum 2), (''last_run'', JStr ''II''), (''processed_files'', JObj [])]"

definition example_fs :: filesystem where
  "example_fs = [''/home/u/.camera-to-immich/state.json'' \<mapsto> Document previous_doc]"

definition empty_state :: State where
  "empty_state =
     \<lparr>Version = 2, CardID = [], LastRun = time_zero, ProcessedFiles = [],
      statePath = ''/home/u/.camera-to-immich/state.json''\<rparr>"

definition fileA :: FileInfo where
  "fileA = \<lparr>Path = ''/card/DCIM/A.ORF'', Name = ''A.ORF'', Size = 10, ModTime = 1, IsRAW = True,
            IsJPG = False, BaseName = ''A'', Extension = ''.ORF''\<rparr>"

definition fileB :: FileInfo where
  "fileB = \<lparr>Path = ''/card/DCIM/B.ORF'', Name = ''B.ORF'', Size = 10, ModTime = 2, IsRAW = True,
            IsJPG = False, BaseName = ''B'', Extension = ''.ORF''\<rparr>"

text \<open>A card with one RAW file, where cameras put it: under \<open>DCIM\<close>.\<close>

definition card_volume :: node where
  "card_volume =
     Dir ''OM SYSTEM'' [Dir ''DCIM'' [Dir ''100OLYMP'' [File ''P1010001.ORF'' 100 1]]]"

definition card_file :: FileInfo where
  "card_file =
     \<lparr>Path = ''/Volumes/OM SYSTEM/DCIM/100OLYMP/P1010001.ORF'', Name = ''P1010001.ORF'',
      Size = 100, ModTime = 1, IsRAW = True, IsJPG = False, BaseName = ''P1010001'',
      Extension = ''.ORF''\<rparr>"

definition example_clean :: "string \<Rightarrow> string" where
  "example_clean p = (if p = [] then ''.'' else p)"

text \<open>A world in which the DNG converter fails and every other command succeeds.\<close>

definition dng_fails_env :: ext_env where
  "dng_fails_env =
     \<lparr>run_cmd = (\<lambda>exe args. if exe = ''dngconv'' then (''no licence'', Some ''exit status 1'')
                              else ([], None)),
      stat_path = (\<lambda>p. StatOK)\<rparr>"

definition example_dng :: DNGConverterConfig where
  "example_dng =
     \<lparr>dng_ExecutablePath = ''dngconv'', dng_OutputDir = ''/tmp/dng'', Compressed = False,
      EmbedOriginal = False\<rparr>"

definition example_rt :: RawTherapeeConfig where
  "example_rt =
     \<lparr>rt_ExecutablePath = ''rawtherapee-cli'', ProfilePath = [], rt_OutputDir = ''/out'',
      Quality = 92\<rparr>"



text \<open>A world in which RawTherapee fails, and one in which every command succeeds.\<close>

definition rt_fails_env :: ext_env where
  "rt_fails_env =
     \<lparr>run_cmd = (\<lambda>exe args. if exe = ''rawtherapee-cli''
                              then (''cannot decode'', Some ''exit status 2'')
                              else ([], None)),
      stat_path = (\<lambda>p. StatOK)\<rparr>"

definition all_ok_env :: ext_env where
  "all_ok_env = \<lparr>run_cmd = (\<lambda>exe args. ([], None)), stat_path = (\<lambda>p. StatOK)\<rparr>"



text \<open>
  A state with two file names that are not valid UTF-8: they differ in one byte, \<open>FE\<close>
  in the one and \<open>FF\<close> in the other, and no UTF-8 sequence holds either byte.
\<close>

definition bad_names_state :: State where
  "bad_names_state =
     \<lparr>Version = 2, CardID = [], LastRun = 5,
      ProcessedFiles =
        [([CHR ''P'', CHR 0xFE, CHR ''.'', CHR ''O'', CHR ''R'', CHR ''F''],
          \<lparr>Filename = [CHR ''P'', CHR 0xFE, CHR ''.'', CHR ''O'', CHR ''R'', CHR ''F''],
           ProcessedAt = 3, ProfileUsed = ''vivid''\<rparr>),
         ([CHR ''P'', CHR 0xFF, CHR ''.'', CHR ''O'', CHR ''R'', CHR ''F''],
          \<lparr>Filename = [CHR ''P'', CHR 0xFF, CHR ''.'', CHR ''O'', CHR ''R'', CHR ''F''],
           ProcessedAt = 4, ProfileUsed = ''mono''\<rparr>)],
      statePath = ''/home/u/.camera-to-immich/state.json''\<rparr>"

section \<open>Properties of the state store\<close>

lemma fold_fields:
  "fold_name ''version'' = ''version''"
  "fold_name ''card_id'' = ''card_id''"
  "fold_name ''last_run'' = ''last_run''"
  "fold_name ''processed_files'' = ''processed_files''"
  "fold_name ''filename'' = ''filename''"
  "fold_name ''processed_at'' = ''processed_at''"
  "fold_name ''profile_used'' = ''profile_used''"
  "fold_name ''last_processed_file'' = ''last_processed_file''"
  "fold_name ''last_processed_timestamp'' = ''last_processed_timestamp''"
  by code_simp+

lemma delete_as_filter: "AList.delete k m = filter (\<lambda>e. fst e \<noteq> k) m"
  by (induction m) auto

lemma SyncWithCard_loop_eq:
  "SyncWithCard_loop ks foc m r =
     (filter (\<lambda>e. fst e \<in> set ks \<longrightarrow> lookup_bool foc (fst e)) m,
      r + length (filter (\<lambda>k. \<not> lookup_bool foc k) ks))"
proof (induction ks arbitrary: m r)
  case Nil
  then show ?case by simp
next
  case (Cons k ks)
  show ?case
  proof (cases "lookup_bool foc k")
    case True
    have "filter (\<lambda>e. fst e \<in> set ks \<longrightarrow> lookup_bool foc (fst e)) m =
          filter (\<lambda>e. fst e \<in> set (k # ks) \<longrightarrow> lookup_bool foc (fst e)) m"
      using True by (intro filter_cong) auto
    with True Cons show ?thesis by simp
  next
    case False
    have "filter (\<lambda>e. fst e \<in> set ks \<longrightarrow> lookup_bool foc (fst e))
            (filter (\<lambda>e. fst e \<noteq> k) m) =
          filter (\<lambda>e. fst e \<in> set (k # ks) \<longrightarrow> lookup_bool foc (fst e)) m"
      using False unfolding filter_filter by (intro filter_cong) auto
    with False Cons show ?thesis by (simp add: delete_as_filter)
  qed
qed

lemma SyncWithCard_eq:
  "SyncWithCard foc s =
     (s\<lparr>ProcessedFiles := filter (\<lambda>e. lookup_bool foc (fst e)) (ProcessedFiles s)\<rparr>,
      length (filter (\<lambda>e. \<not> lookup_bool foc (fst e)) (ProcessedFiles s)))"
proof -
  have a: "filter (\<lambda>e. fst e \<in> set (map fst (ProcessedFiles s)) \<longrightarrow> lookup_bool foc (fst e))
             (ProcessedFiles s)
        = filter (\<lambda>e. lookup_bool foc (fst e)) (ProcessedFiles s)"
    by (intro filter_cong) auto
  have b: "length (filter (\<lambda>k. \<not> lookup_bool foc k) (map fst (ProcessedFiles s)))
        = length (filter (\<lambda>e. \<not> lookup_bool foc (fst e)) (ProcessedFiles s))"
    by (simp add: filter_map comp_def)
  show ?thesis
    unfolding SyncWithCard_def SyncWithCard_loop_eq using a b by simp
qed

lemma map_of_filter_key:
  "map_of (filter (\<lambda>e. P (fst e)) m) k = (if P k then map_of m k else None)"
  by (induction m) auto

text \<open>
  C3: \<open>SyncWithCard\<close> keeps exactly the entries whose file name the card map holds as
  \<open>true\<close>, each as it was (time of processing and profile included), drops every other
  entry, and returns the number of entries dropped. No other field of the state changes.
\<close>

theorem SyncWithCard_removes_exactly_absent:
  "SyncWithCard filesOnCard s = (s', removed) \<Longrightarrow>
     ProcessedFiles s' = filter (\<lambda>e. lookup_bool filesOnCard (fst e)) (ProcessedFiles s) \<and>
     removed = length (filter (\<lambda>e. \<not> lookup_bool filesOnCard (fst e)) (ProcessedFiles s)) \<and>
     removed + length (ProcessedFiles s') = length (ProcessedFiles s) \<and>
     (\<forall>k. map_of (ProcessedFiles s') k =
          (if lookup_bool filesOnCard k then map_of (ProcessedFiles s) k else None)) \<and>
     Version s' = Version s \<and> CardID s' = CardID s \<and> LastRun s' = LastRun s \<and>
     statePath s' = statePath s"
proof -
  assume a: "SyncWithCard filesOnCard s = (s', removed)"
  let ?P = "\<lambda>e. lookup_bool filesOnCard (fst e)"
  from a have s': "s' = s\<lparr>ProcessedFiles := filter ?P (ProcessedFiles s)\<rparr>"
    and r: "removed = length (filter (\<lambda>e. \<not> ?P e) (ProcessedFiles s))"
    by (simp_all add: SyncWithCard_eq)
  have len: "removed + length (ProcessedFiles s') = length (ProcessedFiles s)"
    using sum_length_filter_compl [of ?P "ProcessedFiles s"] by (simp add: s' r)
  show ?thesis
    using len by (simp add: s' r map_of_filter_key)
qed

theorem SyncWithCard_removes_exactly_absent_witness:
  "SyncWithCard [''A.ORF'' \<mapsto> True, ''B.ORF'' \<mapsto> True] example_state =
     (example_state\<lparr>ProcessedFiles :=
        [(''A.ORF'', \<lparr>Filename = ''A.ORF'', ProcessedAt = 3, ProfileUsed = []\<rparr>)]\<rparr>, 1)
   \<and> map_of (ProcessedFiles (fst (SyncWithCard [''A.ORF'' \<mapsto> True, ''B.ORF'' \<mapsto> True]
                                      example_state))) ''A.ORF''
       = map_of (ProcessedFiles example_state) ''A.ORF''
   \<and> map_of (ProcessedFiles (fst (SyncWithCard [''A.ORF'' \<mapsto> True, ''B.ORF'' \<mapsto> True]
                                      example_state))) ''Z.ORF'' = None"
proof -
  have e: "SyncWithCard [''A.ORF'' \<mapsto> True, ''B.ORF'' \<mapsto> True] example_state =
     (example_state\<lparr>ProcessedFiles :=
        [(''A.ORF'', \<lparr>Filename = ''A.ORF'', ProcessedAt = 3, ProfileUsed = []\<rparr>)]\<rparr>, 1)"
    by (simp add: SyncWithCard_def example_state_def lookup_bool_def)
  from SyncWithCard_removes_exactly_absent [OF e] e show ?thesis
    by (simp add: lookup_bool_def example_state_def)
qed

lemma count_key_update:
  "distinct (map fst m) \<Longrightarrow> length (filter (\<lambda>e. fst e = k) (AList.update k v m)) = 1"
proof (induction m)
  case Nil
  then show ?case by simp
next
  case (Cons e m)
  obtain k' v' where e: "e = (k', v')" by (cases e)
  show ?case
  proof (cases "k' = k")
    case True
    with Cons.prems e have "k \<notin> fst ` set m" by auto
    then have "filter (\<lambda>e. fst e = k) m = []"
      by (auto simp: filter_empty_conv)
    with True e show ?thesis by simp
  next
    case False
    with Cons e show ?thesis by simp
  qed
qed

text \<open>
  C5: after \<open>MarkProcessed\<close> is called twice for one file name, the map holds exactly one
  entry under that name, with the time and the profile of the second call; every other
  entry is as before; and each call sets \<open>LastRun\<close> to its own reading of the clock.
\<close>

theorem MarkProcessed_twice:
  assumes "distinct (map fst (ProcessedFiles s))"
    and "s1 = MarkProcessed filename profile1 out1 t1 u1 s"
    and "s2 = MarkProcessed filename profile2 out2 t2 u2 s1"
  shows "map_of (ProcessedFiles s2) filename =
           Some \<lparr>Filename = filename, ProcessedAt = t2, ProfileUsed = profile2\<rparr>
       \<and> length (filter (\<lambda>e. fst e = filename) (ProcessedFiles s2)) = 1
       \<and> distinct (map fst (ProcessedFiles s2))
       \<and> LastRun s1 = u1 \<and> LastRun s2 = u2
       \<and> (\<forall>k. k \<noteq> filename \<longrightarrow> map_of (ProcessedFiles s2) k = map_of (ProcessedFiles s) k)"
proof -
  have d1: "distinct (map fst (ProcessedFiles s1))"
    using assms(1) by (simp add: assms(2) MarkProcessed_def distinct_update)
  have "length (filter (\<lambda>e. fst e = filename) (ProcessedFiles s2)) = 1"
    using count_key_update [OF d1] by (simp add: assms(3) MarkProcessed_def)
  moreover have "distinct (map fst (ProcessedFiles s2))"
    using d1 by (simp add: assms(3) MarkProcessed_def distinct_update)
  ultimately show ?thesis
    by (simp add: assms(2,3) MarkProcessed_def update_conv')
qed

theorem MarkProcessed_twice_witness:
  "distinct (map fst (ProcessedFiles example_state))
   \<and> ProcessedFiles (MarkProcessed ''A.ORF'' ''mono'' ''/out/A.jpg'' 8 9
                       (MarkProcessed ''A.ORF'' ''vivid'' ''/out/A.jpg'' 6 7 example_state))
       = [(''Z.ORF'', \<lparr>Filename = ''Z.ORF'', ProcessedAt = 4, ProfileUsed = ''vivid''\<rparr>),
          (''A.ORF'', \<lparr>Filename = ''A.ORF'', ProcessedAt = 8, ProfileUsed = ''mono''\<rparr>)]
   \<and> LastRun (MarkProcessed ''A.ORF'' ''mono'' ''/out/A.jpg'' 8 9
                 (MarkProcessed ''A.ORF'' ''vivid'' ''/out/A.jpg'' 6 7 example_state)) = 9"
proof -
  have d: "distinct (map fst (ProcessedFiles example_state))"
    by (simp add: example_state_def)
  from MarkProcessed_twice [OF d refl refl, of "''A.ORF''" "''mono''" "''/out/A.jpg''" 8 9
      "''vivid''" "''/out/A.jpg''" 6 7] d
  show ?thesis
    by (simp add: MarkProcessed_def example_state_def)
qed

text \<open>
  C10, as the code has it: \<open>Clear\<close> returns the number of entries held before, empties the
  map, drops the card ID and sets \<open>LastRun\<close> to the zero time; it leaves two fields as
  they were, the path of the state file and the format version. \<open>GetStats\<close> on the
  cleared state reports a zero \<open>LastRun\<close>, and so does the state that a later \<open>Load\<close>
  reads from the file that \<open>Save\<close> wrote, provided the zero time is written as a text
  that reads back as the zero time.
\<close>

theorem Clear_effect:
  "Clear s = (s', n) \<Longrightarrow>
     n = length (ProcessedFiles s)
   \<and> s' = \<lparr>Version = Version s, CardID = [], LastRun = time_zero, ProcessedFiles = [],
            statePath = statePath s\<rparr>
   \<and> IsZero (StatsLastRun (GetStats sz s')) \<and> ProcessedCount (GetStats sz s') = 0
   \<and> (time_format tc time_zero = Some z \<and> time_parse tc z = Some time_zero \<longrightarrow>
        Save tc False s' = None
        \<and> Load tc (statePath s) True (ReadFile (run_steps (Save_steps tc s') fs) (statePath s))
            = Inr (s', []))"
proof -
  assume a: "Clear s = (s', n)"
  then have s': "s' = \<lparr>Version = Version s, CardID = [], LastRun = time_zero,
                        ProcessedFiles = [], statePath = statePath s\<rparr>"
    and n: "n = length (ProcessedFiles s)"
    by (auto simp: Clear_def Let_def)
  have stats: "IsZero (StatsLastRun (GetStats sz s')) \<and> ProcessedCount (GetStats sz s') = 0"
    by (simp add: s' GetStats_def IsZero_def)
  have reload: "Save tc False s' = None
      \<and> Load tc (statePath s) True (ReadFile (run_steps (Save_steps tc s') fs) (statePath s))
          = Inr (s', [])"
    if z: "time_format tc time_zero = Some z" "time_parse tc z = Some time_zero"
  proof -
    have m: "MarshalIndent tc s' =
        Some (JObj [(''version'', JNum (sint (Version s))), (''last_run'', JStr z),
                    (''processed_files'', JObj [])])"
      by (simp add: MarshalIndent_def s' z)
    have r: "- (2 ^ 63) \<le> sint (Version s) \<and> sint (Version s) < 2 ^ 63"
      using sint_ge [of "Version s"] sint_lt [of "Version s"] by simp
    show ?thesis
      using r
      by (simp add: Save_def Save_steps_def m WriteFile_def run_steps_def ReadFile_def Load_def
          State_field_def fold_fields z)
         (simp add: s')
  qed
  show ?thesis
  proof (intro conjI impI)
    show "n = length (ProcessedFiles s)" by (rule n)
    show "s' = \<lparr>Version = Version s, CardID = [], LastRun = time_zero, ProcessedFiles = [],
            statePath = statePath s\<rparr>" by (rule s')
    show "IsZero (StatsLastRun (GetStats sz s'))" using stats by (rule conjunct1)
    show "ProcessedCount (GetStats sz s') = 0" using stats by (rule conjunct2)
  next
    assume "time_format tc time_zero = Some z \<and> time_parse tc z = Some time_zero"
    then have z: "time_format tc time_zero = Some z" "time_parse tc z = Some time_zero"
      by (rule conjunct1, rule conjunct2)
    show "Save tc False s' = None" using reload [OF z] by (rule conjunct1)
  next
    assume "time_format tc time_zero = Some z \<and> time_parse tc z = Some time_zero"
    then have z: "time_format tc time_zero = Some z" "time_parse tc z = Some time_zero"
      by (rule conjunct1, rule conjunct2)
    show "Load tc (statePath s) True (ReadFile (run_steps (Save_steps tc s') fs) (statePath s))
            = Inr (s', [])" using reload [OF z] by (rule conjunct2)
  qed
qed

theorem Clear_effect_witness:
  "Clear example_state =
     (\<lparr>Version = 2, CardID = [], LastRun = time_zero, ProcessedFiles = [],
       statePath = ''/home/u/.camera-to-immich/state.json''\<rparr>, 2)
   \<and> Load example_codec ''/home/u/.camera-to-immich/state.json'' True
        (ReadFile (run_steps (Save_steps example_codec (fst (Clear example_state))) example_fs)
           ''/home/u/.camera-to-immich/state.json'')
       = Inr (fst (Clear example_state), [])"
proof -
  have c: "Clear example_state =
     (\<lparr>Version = 2, CardID = [], LastRun = time_zero, ProcessedFiles = [],
       statePath = ''/home/u/.camera-to-immich/state.json''\<rparr>, 2)"
    by (simp add: Clear_def example_state_def)
  have z: "time_format example_codec time_zero = Some []
           \<and> time_parse example_codec [] = Some time_zero"
    by (simp add: example_codec_def time_zero_def)
  have p: "statePath example_state = ''/home/u/.camera-to-immich/state.json''"
    by (simp add: example_state_def)
  from Clear_effect [OF c, of None example_codec "[]" example_fs] z c p show ?thesis
    by simp
qed

text \<open>
  The claim that the path is the only field \<open>Clear\<close> leaves unchanged fails on the
  version: a state of version 1 and a state of version 2 keep their versions.
\<close>

theorem Clear_keeps_Version_counterexample:
  "Version (fst (Clear (example_state\<lparr>Version := 1\<rparr>))) = 1
   \<and> Version (fst (Clear example_state)) = 2
   \<and> statePath (example_state\<lparr>Version := 1\<rparr>) = statePath example_state"
  by (simp add: Clear_def example_state_def)

section \<open>Properties of the scan and of the job list\<close>

text \<open>
  C1 asks for at most one job per file of the volume. \<open>ScanForImages\<close> walks \<open>DCIM\<close>
  and then the whole volume, which holds \<open>DCIM\<close> again, and nothing after it drops the
  repetition: on a card with one RAW file under \<open>DCIM\<close> and an empty state, the run
  sends two jobs for that file.
\<close>

theorem DCIM_file_submitted_twice:
  "run_jobs (\<lambda>p. p) 0 empty_state ''/Volumes/OM SYSTEM'' card_volume [''.ORF'' \<mapsto> True]
     = [(0, card_file), (1, card_file)]
   \<and> RAWFiles (ScanForImages (\<lambda>p. p) ''/Volumes/OM SYSTEM'' card_volume [''.ORF'' \<mapsto> True])
     = [card_file, card_file]"
  by (simp add: run_jobs_def newRAWFiles_of_def ScanForImages_def card_volume_def
      empty_state_def card_file_def Join_def scan_visit_def HasPrefix_def Ext_def ToUpper_def
      upper_char_def TrimSuffix_def HasSuffix_def lookup_bool_def FilterNewFiles_def
      GetProcessedFilesMap_def Let_def)

lemma GetProcessedFilesMap_loop_lookup:
  "lookup_bool (GetProcessedFilesMap_loop ks result) k = (k \<in> set ks \<or> lookup_bool result k)"
  by (induction ks arbitrary: result) (auto simp: lookup_bool_def)

lemma lookup_GetProcessedFilesMap:
  "lookup_bool (GetProcessedFilesMap s) k = (map_of (ProcessedFiles s) k \<noteq> None)"
proof -
  have "lookup_bool (GetProcessedFilesMap s) k = (k \<in> fst ` set (ProcessedFiles s))"
    unfolding GetProcessedFilesMap_def GetProcessedFilesMap_loop_lookup
    by (simp add: lookup_bool_def)
  then show ?thesis by (simp add: map_of_eq_None_iff)
qed

lemma FilterNewFiles_loop_eq:
  "FilterNewFiles_loop files processed newFiles =
     newFiles @ filter (\<lambda>f. \<not> lookup_bool processed (Name f)) files"
  by (induction files arbitrary: newFiles) simp_all

lemma FilterNewFiles_eq:
  "FilterNewFiles files (GetProcessedFilesMap s) =
     filter (\<lambda>f. map_of (ProcessedFiles s) (Name f) = None) files"
  by (simp add: FilterNewFiles_def FilterNewFiles_loop_eq lookup_GetProcessedFilesMap)

text \<open>
  C6: the new files are the discovered files whose name the processed map does not hold,
  in the order of discovery; with a positive limit below their number, the files
  submitted are the first \<open>Limit\<close> of them. With limit 1 and the new files \<open>A\<close>, \<open>B\<close>,
  only \<open>A\<close> is submitted.
\<close>

theorem new_files_filtered_and_limited:
  "FilterNewFiles files (GetProcessedFilesMap s) =
     filter (\<lambda>f. map_of (ProcessedFiles s) (Name f) = None) files
   \<and> newRAWFiles_of Limit s scan =
       (let new = filter (\<lambda>f. map_of (ProcessedFiles s) (Name f) = None) (RAWFiles scan)
        in if 0 < Limit \<and> Limit < int (length new) then take (nat Limit) new else new)
   \<and> newRAWFiles_of 1 empty_state \<lparr>RAWFiles = [fileA, fileB], JPGFiles = [], BasePath = ''/card''\<rparr>
       = [fileA]"
  by (simp add: FilterNewFiles_eq newRAWFiles_of_def Let_def empty_state_def)

section \<open>Properties of the worker pool\<close>

lemma length_spawn_workers: "length (spawn_workers w n) = nat (n - w)"
proof (induction w n rule: spawn_workers.induct)
  case (1 w n)
  show ?case
  proof (cases "w < n")
    case True
    with 1 show ?thesis by (subst spawn_workers.simps) simp
  next
    case False
    then show ?thesis by (subst spawn_workers.simps) simp
  qed
qed

text \<open>
  C7: for \<open>N \<ge> 1\<close> jobs and at least one core, the pool starts
  \<open>max 1 (min w N)\<close> workers, where \<open>w\<close> is the configured number when that is positive
  and the number of cores capped at 4 otherwise. A configured number is not capped.
\<close>

theorem workers_spawned:
  assumes "1 \<le> N" and "1 \<le> NumCPU"
  shows "int (length (spawn_workers 0 (numWorkers_of Workers NumCPU N))) =
           max 1 (min (if 0 < Workers then Workers else min NumCPU 4) (int N))"
  using assms by (auto simp: length_spawn_workers numWorkers_of_def defaultMaxWorkers_def Let_def)

theorem workers_spawned_witness:
  "(1::nat) \<le> 10 \<and> (1::int) \<le> 16 \<and> length (spawn_workers 0 (numWorkers_of 8 16 10)) = 8
   \<and> length (spawn_workers 0 (numWorkers_of 0 16 10)) = 4"
  using workers_spawned [of 10 16 8] workers_spawned [of 10 16 0] by simp

lemma Join_nonempty: "\<forall>p. clean p \<noteq> [] \<Longrightarrow> b \<noteq> [] \<Longrightarrow> Join clean a b \<noteq> []"
  by (simp add: Join_def)

text \<open>
  C8: a result that a worker sends has an error or a non-empty output path, never both
  and never neither, and which of the two it has is decided by what the commands answer.
  With a DNG converter: when its command returns an error, or leaves no file at either
  of the two paths tried, the result carries an error and no output path, and the DNG
  command is the only command run for the job; otherwise RawTherapee runs on the DNG
  file. Without one, RawTherapee runs on the RAW file. When the RawTherapee command
  returns an error or leaves no output file, the result carries an error and no output
  path; when it returns none and the file is there, the result carries no error and the
  path of that file. The library's contract that \<open>filepath.Clean\<close> never returns the
  empty string is a hypothesis.
\<close>

theorem worker_outcome_exclusive:
  assumes clean: "\<forall>p. clean p \<noteq> []"
    and job: "worker_job clean env dngConverter rt since job = (r, calls)"
  shows
   "(let raw = Path (snd job);
         rt_out = (\<lambda>inp. Join clean (rt_OutputDir rt) (TrimSuffix (Base inp) (Ext inp) @ ''.jpg''));
         rt_args = (\<lambda>inp. [''-o'', rt_out inp, ''-j'' @ Sprintf_d (Quality rt), ''-Y'']
                            @ (if ProfilePath rt \<noteq> [] then [''-p'', ProfilePath rt] else [])
                            @ [''-c'', inp]);
         rt_call = (\<lambda>inp. Exec (rt_ExecutablePath rt) (rt_args inp));
         rt_ok = (\<lambda>inp. snd (run_cmd env (rt_ExecutablePath rt) (rt_args inp)) = None
                          \<and> stat_path env (rt_out inp) \<noteq> StatNotExist)
     in ((err r = None) = (outputPath r \<noteq> []))
        \<and> index r = fst job \<and> rawFile r = snd job \<and> elapsed r = since
        \<and> (case dngConverter of
              None \<Rightarrow>
                dngPath r = [] \<and> calls = [rt_call raw]
                \<and> (if rt_ok raw then err r = None \<and> outputPath r = rt_out raw
                    else err r \<noteq> None \<and> outputPath r = [])
            | Some dc \<Rightarrow>
                (let b = TrimSuffix (Base raw) (Ext raw);
                     dng_call = Exec (dng_ExecutablePath dc)
                                  ([''-c'', ''-d'', dng_OutputDir dc, ''-o'', b @ ''.dng'']
                                   @ (if Compressed dc then [''-lossy''] else [])
                                   @ (if EmbedOriginal dc then [''-e''] else [])
                                   @ [raw]);
                     dng_out = Join clean (dng_OutputDir dc) (b @ ''.dng'');
                     dng_alt = Join clean (dng_OutputDir dc) (b @ ''.DNG'');
                     dng_file =
                       (if snd (run_cmd env (dng_ExecutablePath dc)
                                  ([''-c'', ''-d'', dng_OutputDir dc, ''-o'', b @ ''.dng'']
                                   @ (if Compressed dc then [''-lossy''] else [])
                                   @ (if EmbedOriginal dc then [''-e''] else [])
                                   @ [raw])) \<noteq> None then None
                        else if stat_path env dng_out \<noteq> StatNotExist then Some dng_out
                        else if stat_path env dng_alt = StatOK then Some dng_alt
                        else None)
                 in case dng_file of
                      None \<Rightarrow>
                        err r \<noteq> None \<and> outputPath r = [] \<and> dngPath r = []
                        \<and> calls = [dng_call]
                    | Some p \<Rightarrow>
                        dngPath r = p \<and> calls = [dng_call, rt_call p]
                        \<and> (if rt_ok p then err r = None \<and> outputPath r = rt_out p
                            else err r \<noteq> None \<and> outputPath r = []))))"
proof -
  define raw where "raw = Path (snd job)"
  define rt_out where
    "rt_out = (\<lambda>inp. Join clean (rt_OutputDir rt) (TrimSuffix (Base inp) (Ext inp) @ ''.jpg''))"
  define rt_args where
    "rt_args = (\<lambda>inp. [''-o'', rt_out inp, ''-j'' @ Sprintf_d (Quality rt), ''-Y'']
                        @ (if ProfilePath rt \<noteq> [] then [''-p'', ProfilePath rt] else [])
                        @ [''-c'', inp])"
  define rt_call where "rt_call = (\<lambda>inp. Exec (rt_ExecutablePath rt) (rt_args inp))"
  define rt_ok where
    "rt_ok = (\<lambda>inp. snd (run_cmd env (rt_ExecutablePath rt) (rt_args inp)) = None
                     \<and> stat_path env (rt_out inp) \<noteq> StatNotExist)"
  define rt_part where
    "rt_part = (\<lambda>inp. if rt_ok inp then err r = None \<and> outputPath r = rt_out inp
                       else err r \<noteq> None \<and> outputPath r = [])"
  have ne: "rt_out inp \<noteq> []" for inp
    unfolding rt_out_def using Join_nonempty [OF clean] by simp
  have pf_unfold: "ProcessFile clean env rt inp =
      (case run_cmd env (rt_ExecutablePath rt) (rt_args inp) of
         (output, Some e) \<Rightarrow>
           (([], Some (''rawtherapee-cli failed: '' @ e @ [CHR 0x0A] @ ''Output: '' @ output)),
            [rt_call inp])
       | (output, None) \<Rightarrow>
           (if stat_path env (rt_out inp) = StatNotExist
            then (([], Some (''output file was not created: '' @ rt_out inp)), [rt_call inp])
            else ((rt_out inp, None), [rt_call inp])))" for inp
    unfolding ProcessFile_def Let_def rt_call_def rt_args_def rt_out_def by (rule refl)
  have pf_calls: "snd (ProcessFile clean env rt inp) = [rt_call inp]" for inp
    unfolding pf_unfold
    by (cases "run_cmd env (rt_ExecutablePath rt) (rt_args inp)") (auto split: option.splits)
  have pf_ok: "fst (ProcessFile clean env rt inp) = (rt_out inp, None)" if "rt_ok inp" for inp
    using that unfolding pf_unfold rt_ok_def
    by (cases "run_cmd env (rt_ExecutablePath rt) (rt_args inp)") (auto split: option.splits)
  have pf_bad: "fst (fst (ProcessFile clean env rt inp)) = []
                \<and> snd (fst (ProcessFile clean env rt inp)) \<noteq> None" if "\<not> rt_ok inp" for inp
    using that unfolding pf_unfold rt_ok_def
    by (cases "run_cmd env (rt_ExecutablePath rt) (rt_args inp)") (auto split: option.splits)
  have rt_stage: "rt_part inp \<and> ((err r = None) = (outputPath r \<noteq> []))"
    if "outputPath r = fst (fst (ProcessFile clean env rt inp))"
      and "err r = snd (fst (ProcessFile clean env rt inp))" for inp
  proof (cases "rt_ok inp")
    case True
    with that pf_ok [OF True] ne [of inp] show ?thesis by (simp add: rt_part_def)
  next
    case False
    with that pf_bad [OF False] show ?thesis by (simp add: rt_part_def)
  qed
  have main:
    "((err r = None) = (outputPath r \<noteq> []))
     \<and> index r = fst job \<and> rawFile r = snd job \<and> elapsed r = since
     \<and> (case dngConverter of
           None \<Rightarrow> dngPath r = [] \<and> calls = [rt_call raw] \<and> rt_part raw
         | Some dc \<Rightarrow>
             (case (if snd (run_cmd env (dng_ExecutablePath dc)
                              ([''-c'', ''-d'', dng_OutputDir dc, ''-o'',
                                TrimSuffix (Base raw) (Ext raw) @ ''.dng'']
                               @ (if Compressed dc then [''-lossy''] else [])
                               @ (if EmbedOriginal dc then [''-e''] else [])
                               @ [raw])) \<noteq> None then None
                    else if stat_path env (Join clean (dng_OutputDir dc)
                                             (TrimSuffix (Base raw) (Ext raw) @ ''.dng''))
                            \<noteq> StatNotExist
                    then Some (Join clean (dng_OutputDir dc)
                                 (TrimSuffix (Base raw) (Ext raw) @ ''.dng''))
                    else if stat_path env (Join clean (dng_OutputDir dc)
                                             (TrimSuffix (Base raw) (Ext raw) @ ''.DNG''))
                            = StatOK
                    then Some (Join clean (dng_OutputDir dc)
                                 (TrimSuffix (Base raw) (Ext raw) @ ''.DNG''))
                    else None) of
                None \<Rightarrow>
                  err r \<noteq> None \<and> outputPath r = [] \<and> dngPath r = []
                  \<and> calls = [Exec (dng_ExecutablePath dc)
                               ([''-c'', ''-d'', dng_OutputDir dc, ''-o'',
                                 TrimSuffix (Base raw) (Ext raw) @ ''.dng'']
                                @ (if Compressed dc then [''-lossy''] else [])
                                @ (if EmbedOriginal dc then [''-e''] else [])
                                @ [raw])]
              | Some p \<Rightarrow>
                  dngPath r = p
                  \<and> calls = [Exec (dng_ExecutablePath dc)
                               ([''-c'', ''-d'', dng_OutputDir dc, ''-o'',
                                 TrimSuffix (Base raw) (Ext raw) @ ''.dng'']
                                @ (if Compressed dc then [''-lossy''] else [])
                                @ (if EmbedOriginal dc then [''-e''] else [])
                                @ [raw]),
                              rt_call p]
                  \<and> rt_part p))"
  proof (cases dngConverter)
    case None
    obtain out e cs where q: "ProcessFile clean env rt raw = ((out, e), cs)"
      by (metis prod.exhaust)
    from job None q have r: "r = \<lparr>index = fst job, rawFile = snd job, outputPath = out,
        dngPath = [], elapsed = since, err = e\<rparr>" and cs: "calls = cs"
      by (simp_all add: worker_job_def raw_def)
    from rt_stage [of raw] q r pf_calls [of raw] cs None show ?thesis by simp
  next
    case (Some dc)
    let ?args = "[''-c'', ''-d'', dng_OutputDir dc, ''-o'', TrimSuffix (Base raw) (Ext raw) @ ''.dng'']
                 @ (if Compressed dc then [''-lossy''] else [])
                 @ (if EmbedOriginal dc then [''-e''] else [])
                 @ [raw]"
    let ?out = "Join clean (dng_OutputDir dc) (TrimSuffix (Base raw) (Ext raw) @ ''.dng'')"
    let ?alt = "Join clean (dng_OutputDir dc) (TrimSuffix (Base raw) (Ext raw) @ ''.DNG'')"
    let ?file = "if snd (run_cmd env (dng_ExecutablePath dc) ?args) \<noteq> None then None
                 else if stat_path env ?out \<noteq> StatNotExist then Some ?out
                 else if stat_path env ?alt = StatOK then Some ?alt
                 else None"
    define dng_args where "dng_args = ?args"
    have cf_unfold: "ConvertFile clean env dc raw =
        (case run_cmd env (dng_ExecutablePath dc) dng_args of
           (output, Some e) \<Rightarrow>
             (([], Some (''Adobe DNG Converter failed: '' @ e @ [CHR 0x0A] @ ''Output: ''
                          @ output)),
              [Exec (dng_ExecutablePath dc) dng_args])
         | (output, None) \<Rightarrow>
             (if stat_path env ?out = StatNotExist
              then (if stat_path env ?alt = StatOK
                    then ((?alt, None), [Exec (dng_ExecutablePath dc) dng_args])
                    else (([], Some (''DNG output file was not created: '' @ ?out
                                      @ [CHR 0x0A] @ ''Command output: '' @ output)),
                          [Exec (dng_ExecutablePath dc) dng_args]))
              else ((?out, None), [Exec (dng_ExecutablePath dc) dng_args])))"
      unfolding ConvertFile_def Let_def dng_args_def by (rule refl)
    have cf_calls: "snd (ConvertFile clean env dc raw) = [Exec (dng_ExecutablePath dc) ?args]"
      unfolding cf_unfold dng_args_def [symmetric]
      by (cases "run_cmd env (dng_ExecutablePath dc) dng_args") (auto split: option.splits)
    have cf_none: "snd (fst (ConvertFile clean env dc raw)) \<noteq> None" if "?file = None"
      using that unfolding cf_unfold dng_args_def [symmetric]
      by (cases "run_cmd env (dng_ExecutablePath dc) dng_args")
         (auto split: option.splits if_splits)
    have cf_some: "fst (ConvertFile clean env dc raw) = (p, None)" if "?file = Some p" for p
      using that unfolding cf_unfold dng_args_def [symmetric]
      by (cases "run_cmd env (dng_ExecutablePath dc) dng_args")
         (auto split: option.splits if_splits)
    show ?thesis
    proof (cases ?file)
      case None
      obtain p e cs where c: "ConvertFile clean env dc raw = ((p, e), cs)"
        by (metis prod.exhaust)
      with cf_none [OF None] obtain msg where e: "e = Some msg" by auto
      from job Some c e have "r = \<lparr>index = fst job, rawFile = snd job, outputPath = [],
          dngPath = [], elapsed = since, err = Some (''DNG conversion failed: '' @ msg)\<rparr>"
        and "calls = cs"
        by (simp_all add: worker_job_def raw_def)
      with cf_calls c Some None show ?thesis by simp
    next
      case (Some p)
      from cf_some [OF Some] cf_calls obtain cs where
        c: "ConvertFile clean env dc raw = ((p, None), cs)"
        and cs: "cs = [Exec (dng_ExecutablePath dc) ?args]"
        by (cases "ConvertFile clean env dc raw") auto
      obtain out e cs' where q: "ProcessFile clean env rt p = ((out, e), cs')"
        by (metis prod.exhaust)
      from job \<open>dngConverter = Some dc\<close> c q have r: "r = \<lparr>index = fst job, rawFile = snd job,
          outputPath = out, dngPath = p, elapsed = since, err = e\<rparr>"
        and calls: "calls = cs @ cs'"
        by (simp_all add: worker_job_def raw_def)
      from rt_stage [of p] q r pf_calls [of p] calls cs \<open>dngConverter = Some dc\<close> Some
      show ?thesis by simp
    qed
  qed
  from main show ?thesis
    unfolding Let_def raw_def rt_part_def rt_ok_def rt_call_def rt_args_def rt_out_def
    by simp
qed

theorem worker_outcome_exclusive_witness:
  "err (fst (worker_job example_clean dng_fails_env (Some example_dng) example_rt 7 (0, fileA)))
     \<noteq> None
   \<and> outputPath (fst (worker_job example_clean dng_fails_env (Some example_dng) example_rt 7
                        (0, fileA))) = []
   \<and> snd (worker_job example_clean dng_fails_env (Some example_dng) example_rt 7 (0, fileA))
     = [Exec ''dngconv'' [''-c'', ''-d'', ''/tmp/dng'', ''-o'', ''A.dng'', ''/card/DCIM/A.ORF'']]
   \<and> err (fst (worker_job example_clean rt_fails_env None example_rt 7 (0, fileA))) \<noteq> None
   \<and> outputPath (fst (worker_job example_clean rt_fails_env None example_rt 7 (0, fileA))) = []
   \<and> err (fst (worker_job example_clean all_ok_env (Some example_dng) example_rt 7 (0, fileA)))
     = None
   \<and> outputPath (fst (worker_job example_clean all_ok_env (Some example_dng) example_rt 7
                        (0, fileA))) = ''/out/A.jpg''
   \<and> dngPath (fst (worker_job example_clean all_ok_env (Some example_dng) example_rt 7
                     (0, fileA))) = ''/tmp/dng/A.dng''
   \<and> length (snd (worker_job example_clean all_ok_env (Some example_dng) example_rt 7
                     (0, fileA))) = 2"
proof -
  let ?w1 = "worker_job example_clean dng_fails_env (Some example_dng) example_rt 7 (0, fileA)"
  let ?w2 = "worker_job example_clean rt_fails_env None example_rt 7 (0, fileA)"
  let ?w3 = "worker_job example_clean all_ok_env (Some example_dng) example_rt 7 (0, fileA)"
  have c: "\<forall>p. example_clean p \<noteq> []" by (simp add: example_clean_def)
  have j1: "?w1 = (fst ?w1, snd ?w1)" and j2: "?w2 = (fst ?w2, snd ?w2)"
    and j3: "?w3 = (fst ?w3, snd ?w3)"
    by simp_all
  have names: "TrimSuffix (Base ''/card/DCIM/A.ORF'') (Ext ''/card/DCIM/A.ORF'') = ''A''"
    "TrimSuffix (Base ''/tmp/dng/A.dng'') (Ext ''/tmp/dng/A.dng'') = ''A''"
    by (simp_all add: TrimSuffix_def HasSuffix_def Base_def Ext_def)
  have w1: "err (fst ?w1) \<noteq> None \<and> outputPath (fst ?w1) = []
      \<and> snd ?w1 = [Exec ''dngconv'' [''-c'', ''-d'', ''/tmp/dng'', ''-o'', ''A.dng'',
                                      ''/card/DCIM/A.ORF'']]"
    using worker_outcome_exclusive [OF c j1]
    by (simp add: Let_def dng_fails_env_def example_dng_def fileA_def names)
  have w2: "err (fst ?w2) \<noteq> None \<and> outputPath (fst ?w2) = []"
    using worker_outcome_exclusive [OF c j2]
    by (simp add: Let_def rt_fails_env_def example_rt_def fileA_def names)
  have w3: "err (fst ?w3) = None \<and> outputPath (fst ?w3) = ''/out/A.jpg''
      \<and> dngPath (fst ?w3) = ''/tmp/dng/A.dng'' \<and> length (snd ?w3) = 2"
    using worker_outcome_exclusive [OF c j3]
    by (simp add: Let_def all_ok_env_def example_dng_def example_rt_def fileA_def names
        example_clean_def Join_def)
  from w1 w2 w3 show ?thesis by simp
qed

section \<open>Properties of the loop that collects the results\<close>








section \<open>Properties of saving and loading\<close>

lemma crash_after_WriteFile:
  "crash_after k (WriteFile p doc) fs q =
     (if q \<noteq> p \<or> k = 0 then fs q
      else if k = 1 then Some Empty
      else if k = 2 then Some (Torn doc)
      else Some (Document doc))"
proof -
  consider "k = 0" | "k = 1" | "k = 2" | "3 \<le> k" by linarith
  then show ?thesis
  proof cases
    case 4
    then have "take k (WriteFile p doc) = WriteFile p doc" by (simp add: WriteFile_def)
    with 4 show ?thesis by (simp add: crash_after_def run_steps_def WriteFile_def)
  qed (simp_all add: crash_after_def run_steps_def WriteFile_def eval_nat_numeral)
qed

text \<open>
  C2, as the code has it: \<open>Save\<close> serializes the whole state and hands the document to
  one \<open>os.WriteFile\<close> on the path of the state file itself. The steps are a truncation
  and the write; there is no second file and no rename. When all steps are through, the
  file holds the document. A crash after the truncation leaves the file empty, a crash
  during the write leaves a beginning of the document; no other file is touched.
\<close>

theorem Save_overwrites_in_place:
  "MarshalIndent tc s = Some doc \<Longrightarrow>
     Save_steps tc s = [Truncate (statePath s), WriteSome (statePath s) doc,
                        WriteRest (statePath s) doc]
   \<and> Save tc False s = None
   \<and> run_steps (Save_steps tc s) fs (statePath s) = Some (Document doc)
   \<and> crash_after k (Save_steps tc s) fs p =
       (if p \<noteq> statePath s \<or> k = 0 then fs p
        else if k = 1 then Some Empty
        else if k = 2 then Some (Torn doc)
        else Some (Document doc))"
proof -
  assume m: "MarshalIndent tc s = Some doc"
  have st: "Save_steps tc s = WriteFile (statePath s) doc"
    by (simp add: Save_steps_def m)
  have "run_steps (Save_steps tc s) fs (statePath s) = Some (Document doc)"
    by (simp add: st run_steps_def WriteFile_def)
  moreover have "Save tc False s = None" by (simp add: Save_def m)
  ultimately show ?thesis
    unfolding st crash_after_WriteFile by (simp add: WriteFile_def)
qed

theorem Save_overwrites_in_place_witness:
  "MarshalIndent example_codec example_state = Some example_doc
   \<and> run_steps (Save_steps example_codec example_state) example_fs (statePath example_state)
       = Some (Document example_doc)
   \<and> crash_after 2 (Save_steps example_codec example_state) example_fs (statePath example_state)
       = Some (Torn example_doc)"
proof -
  have m: "MarshalIndent example_codec example_state = Some example_doc" by code_simp
  from Save_overwrites_in_place [OF m, of example_fs 2 "statePath example_state"] m
  show ?thesis by auto
qed

text \<open>
  The claim that a crash in the middle of \<open>Save\<close> leaves the file saved before intact
  fails: the file holds a document, \<open>Save\<close> starts, and after its first step the file is
  empty, which the next \<open>Load\<close> refuses.
\<close>

theorem Save_crash_counterexample:
  "example_fs (statePath example_state) = Some (Document previous_doc)
   \<and> Save_steps example_codec example_state =
       [Truncate (statePath example_state), WriteSome (statePath example_state) example_doc,
        WriteRest (statePath example_state) example_doc]
   \<and> crash_after 1 (Save_steps example_codec example_state) example_fs (statePath example_state)
       = Some Empty
   \<and> Load example_codec (statePath example_state) True
        (ReadFile (crash_after 1 (Save_steps example_codec example_state) example_fs)
           (statePath example_state))
       = Inl ParseFailed"
proof -
  have m: "MarshalIndent example_codec example_state = Some example_doc" by code_simp
  have p: "statePath example_state = ''/home/u/.camera-to-immich/state.json''"
    by (simp add: example_state_def)
  show ?thesis
    by (simp add: Save_steps_def m WriteFile_def crash_after_def run_steps_def p example_fs_def
        ReadFile_def Load_def)
qed

subsection \<open>Loading what was saved\<close>

lemma dec_ProcessedFile_marshal:
  assumes "\<forall>t str. time_format tc t = Some str \<longrightarrow> time_parse tc str \<noteq> None"
    and "valid_utf8 (Filename pf)" and "valid_utf8 (ProfileUsed pf)"
    and "marshal_ProcessedFile tc pf = Some j"
  shows "dec_ProcessedFile tc j zero_ProcessedFile = (DecOK, reloaded tc pf)"
proof -
  obtain str where f: "time_format tc (ProcessedAt pf) = Some str"
    using assms(4) by (auto simp: marshal_ProcessedFile_def split: option.splits)
  with assms(1) obtain t where p: "time_parse tc str = Some t" by blast
  show ?thesis
    using assms(2,3,4) f p
    by (cases "ProfileUsed pf = []")
       (auto simp: marshal_ProcessedFile_def ProcessedFile_field_def fold_fields
          zero_ProcessedFile_def reloaded_def valid_utf8_def)
qed

lemma update_fresh: "k \<notin> fst ` set m \<Longrightarrow> AList.update k v m = m @ [(k, v)]"
  by (induction m) auto

lemma dec_members_marshal_entries:
  assumes "\<forall>t str. time_format tc t = Some str \<longrightarrow> time_parse tc str \<noteq> None"
  shows "marshal_entries tc m = Some es \<Longrightarrow> distinct (map fst m) \<Longrightarrow>
         \<forall>e \<in> set m. valid_utf8 (fst e) \<and> valid_utf8 (Filename (snd e))
                        \<and> valid_utf8 (ProfileUsed (snd e)) \<Longrightarrow>
         fst ` set m \<inter> fst ` set acc = {} \<Longrightarrow>
         dec_members (map_member tc) es acc =
           (DecOK, acc @ map (\<lambda>e. (fst e, reloaded tc (snd e))) m)"
proof (induction m arbitrary: es acc)
  case Nil
  then show ?case by simp
next
  case (Cons e m)
  obtain k pf where e: "e = (k, pf)" by (cases e)
  from Cons.prems(3) e have vk: "utf8_coerce k = k"
    and vf: "valid_utf8 (Filename pf)" and vp: "valid_utf8 (ProfileUsed pf)"
    and vm: "\<forall>e \<in> set m. valid_utf8 (fst e) \<and> valid_utf8 (Filename (snd e))
                        \<and> valid_utf8 (ProfileUsed (snd e))"
    by (simp_all add: valid_utf8_def)
  from Cons.prems(1) e vk obtain j js where
    j: "marshal_ProcessedFile tc pf = Some j" and js: "marshal_entries tc m = Some js"
    and es: "es = (k, j) # js"
    by (auto split: option.splits)
  have fresh: "k \<notin> fst ` set acc" using Cons.prems(4) e by auto
  have step: "map_member tc k j acc = (DecOK, acc @ [(k, reloaded tc pf)])"
    by (simp add: map_member_def dec_ProcessedFile_marshal [OF assms vf vp j]
        update_fresh [OF fresh])
  have d: "distinct (map fst m)" using Cons.prems(2) by simp
  have disj: "fst ` set m \<inter> fst ` set (acc @ [(k, reloaded tc pf)]) = {}"
    using Cons.prems(2,4) e by auto
  show ?case
    by (simp add: es step Cons.IH [OF js d vm disj] e)
qed

lemma sint64_range: "- (2 ^ 63) \<le> sint (v :: 64 word) \<and> sint v < 2 ^ 63"
  using sint_ge [of v] sint_lt [of v] by simp

lemma Unmarshal_State_MarshalIndent:
  assumes codec: "\<forall>t str. time_format tc t = Some str \<longrightarrow> time_parse tc str \<noteq> None"
    and d: "distinct (map fst (ProcessedFiles s))"
    and v: "\<forall>e \<in> set (ProcessedFiles s). valid_utf8 (fst e) \<and> valid_utf8 (Filename (snd e))
                                          \<and> valid_utf8 (ProfileUsed (snd e))"
    and vc: "valid_utf8 (CardID s)"
    and m: "MarshalIndent tc s = Some doc"
  shows "\<exists>t. Unmarshal_State tc doc
            \<lparr>Version = 2, CardID = [], LastRun = time_zero, ProcessedFiles = [], statePath = path\<rparr>
          = (DecOK, \<lparr>Version = Version s, CardID = CardID s, LastRun = t,
                     ProcessedFiles = map (\<lambda>e. (fst e, reloaded tc (snd e)))
                                        (sort_key fst (ProcessedFiles s)),
                     statePath = path\<rparr>)"
proof -
  from m vc obtain lr es where lr: "time_format tc (LastRun s) = Some lr"
    and es: "marshal_entries tc (sort_key fst (ProcessedFiles s)) = Some es"
    and doc: "doc = JObj ([(''version'', JNum (sint (Version s)))]
                           @ (if CardID s = [] then [] else [(''card_id'', JStr (CardID s))])
                           @ [(''last_run'', JStr lr), (''processed_files'', JObj es)])"
    by (auto simp: MarshalIndent_def valid_utf8_def split: option.splits)
  from codec lr obtain t where t: "time_parse tc lr = Some t" by blast
  have ds: "distinct (map fst (sort_key fst (ProcessedFiles s)))"
    using d by (simp add: distinct_map)
  have vs: "\<forall>e \<in> set (sort_key fst (ProcessedFiles s)).
              valid_utf8 (fst e) \<and> valid_utf8 (Filename (snd e)) \<and> valid_utf8 (ProfileUsed (snd e))"
    using v by simp
  have mp: "dec_members (map_member tc) es [] =
     (DecOK, map (\<lambda>e. (fst e, reloaded tc (snd e))) (sort_key fst (ProcessedFiles s)))"
    using dec_members_marshal_entries [where acc = "[]", OF codec es ds vs] by simp
  have "Unmarshal_State tc doc
            \<lparr>Version = 2, CardID = [], LastRun = time_zero, ProcessedFiles = [], statePath = path\<rparr>
          = (DecOK, \<lparr>Version = Version s, CardID = CardID s, LastRun = t,
                     ProcessedFiles = map (\<lambda>e. (fst e, reloaded tc (snd e)))
                                        (sort_key fst (ProcessedFiles s)),
                     statePath = path\<rparr>)"
    using sint64_range [of "Version s"]
    by (cases "CardID s = []") (simp_all add: doc State_field_def fold_fields t mp)
  then show ?thesis ..
qed

lemma map_of_reloaded_sorted:
  assumes "distinct (map fst m)"
  shows "map_of (map (\<lambda>e. (fst e, f (snd e))) (sort_key fst m)) k = map_option f (map_of m k)"
proof -
  have "map_of (sort_key fst m) = map_of m"
    using assms by (intro map_of_inject_set [THEN iffD2]) (simp_all add: distinct_map)
  moreover have "map_of (map (\<lambda>e. (fst e, f (snd e))) xs) k = map_option f (map_of xs k)" for xs
    by (induction xs) auto
  ultimately show ?thesis by simp
qed

lemma Load_after_Save:
  assumes codec: "\<forall>t str. time_format tc t = Some str \<longrightarrow> time_parse tc str \<noteq> None"
    and d: "distinct (map fst (ProcessedFiles s))"
    and v: "\<forall>e \<in> set (ProcessedFiles s). valid_utf8 (fst e) \<and> valid_utf8 (Filename (snd e))
                                          \<and> valid_utf8 (ProfileUsed (snd e))"
    and vc: "valid_utf8 (CardID s)"
    and m: "MarshalIndent tc s = Some doc"
  shows "\<exists>t. Load tc (statePath s) True (ReadFile (run_steps (Save_steps tc s) fs) (statePath s)) =
           Inr (\<lparr>Version = Version s, CardID = CardID s, LastRun = t,
                  ProcessedFiles = map (\<lambda>e. (fst e, reloaded tc (snd e)))
                                     (sort_key fst (ProcessedFiles s)),
                  statePath = statePath s\<rparr>, [])"
proof -
  have rd: "ReadFile (run_steps (Save_steps tc s) fs) (statePath s) = ReadData (Document doc)"
    by (simp add: Save_steps_def m WriteFile_def run_steps_def ReadFile_def)
  from Unmarshal_State_MarshalIndent [where path = "statePath s", OF codec d v vc m] obtain t where
    "Unmarshal_State tc doc
        \<lparr>Version = 2, CardID = [], LastRun = time_zero, ProcessedFiles = [],
         statePath = statePath s\<rparr>
      = (DecOK, \<lparr>Version = Version s, CardID = CardID s, LastRun = t,
                 ProcessedFiles = map (\<lambda>e. (fst e, reloaded tc (snd e)))
                                    (sort_key fst (ProcessedFiles s)),
                 statePath = statePath s\<rparr>)"
    by blast
  then show ?thesis
    by (simp add: rd Load_def)
qed

subsection \<open>Loading a legacy file\<close>

lemma dec_both_OK: "(dec_both a b = DecOK) = (a = DecOK \<and> b = DecOK)"
  by (cases a; cases b) simp_all

lemma dec_members_Cons_bad:
  "fst (f k v x) \<noteq> DecOK \<Longrightarrow> fst (dec_members f ((k, v) # ms) x) \<noteq> DecOK"
  by (cases "f k v x"; cases "fst (f k v x)")
     (auto simp: dec_both_OK split: prod.splits)

lemma Load_Document:
  "Load tc path True (ReadData (Document d)) =
     (let r = Unmarshal_State tc d
                \<lparr>Version = 2, CardID = [], LastRun = time_zero, ProcessedFiles = [],
                 statePath = path\<rparr>
      in if fst r = DecOK then Inr ((snd r)\<lparr>statePath := path\<rparr>, [])
         else let l = Unmarshal_LegacyState tc d
                        \<lparr>LastProcessedFile = [], LastProcessedTimestamp = time_zero,
                         LegacyProcessedFiles = []\<rparr>
              in if fst l = DecOK
                 then (let state = (snd r)\<lparr>ProcessedFiles :=
                                              migrate_loop (LegacyProcessedFiles (snd l)) [],
                                            LastRun := LastProcessedTimestamp (snd l),
                                            Version := 2, statePath := path\<rparr>
                       in Inr (state, Save_steps tc state))
                 else Inl ParseFailed)"
  by (simp add: Load_def Let_def split: prod.splits dec_status.splits)

lemma dec_record_ok:
  "time_parse tc (fst (snd r)) \<noteq> None \<Longrightarrow>
     dec_ProcessedFile tc (record_json r) zero_ProcessedFile = (DecOK, rec_pf tc r)"
  by (cases r)
     (auto simp: record_json_def ProcessedFile_field_def fold_fields zero_ProcessedFile_def
        rec_pf_def)

lemma dec_record_bad:
  "time_parse tc (fst (snd r)) = None \<Longrightarrow>
     fst (dec_ProcessedFile tc (record_json r) zero_ProcessedFile) \<noteq> DecOK"
  by (cases r)
     (auto simp: record_json_def ProcessedFile_field_def fold_fields zero_ProcessedFile_def
        dec_both_OK split: prod.splits)

lemma dec_elements_ok:
  "\<forall>r \<in> set recs. time_parse tc (fst (snd r)) \<noteq> None \<Longrightarrow>
     dec_elements tc (map record_json recs) = (DecOK, map (rec_pf tc) recs)"
  by (induction recs) (simp_all add: dec_record_ok)

lemma dec_elements_bad:
  "\<exists>r \<in> set recs. time_parse tc (fst (snd r)) = None \<Longrightarrow>
     fst (dec_elements tc (map record_json recs)) \<noteq> DecOK"
proof (induction recs)
  case Nil
  then show ?case by simp
next
  case (Cons r recs)
  show ?case
  proof (cases "time_parse tc (fst (snd r))")
    case None
    from dec_record_bad [OF None] show ?thesis
      by (auto simp: dec_both_OK split: prod.splits dec_status.splits)
  next
    case (Some t)
    with Cons.prems have "\<exists>r \<in> set recs. time_parse tc (fst (snd r)) = None" by auto
    from Cons.IH [OF this] Some show ?thesis
      by (auto simp: dec_record_ok dec_both_OK split: prod.splits)
  qed
qed

lemma map_member_ok:
  "time_parse tc (fst (snd r)) \<noteq> None \<Longrightarrow>
     map_member tc (fst r) (record_json r) acc = (DecOK, AList.update (fst r) (rec_pf tc r) acc)"
  by (simp add: map_member_def dec_record_ok)

lemma map_member_bad:
  "time_parse tc (fst (snd r)) = None \<Longrightarrow>
     fst (map_member tc (fst r) (record_json r) acc) \<noteq> DecOK"
  using dec_record_bad [of tc r]
  by (auto simp: map_member_def split: prod.splits dec_status.splits)

lemma dec_members_ok:
  "\<forall>r \<in> set recs. time_parse tc (fst (snd r)) \<noteq> None \<Longrightarrow>
     dec_members (map_member tc) (map (\<lambda>r. (fst r, record_json r)) recs) acc =
       (DecOK, migrate_loop (map (rec_pf tc) recs) acc)"
proof (induction recs arbitrary: acc)
  case Nil
  then show ?case by simp
next
  case (Cons r recs)
  then show ?case
    by (simp add: map_member_ok) (simp add: rec_pf_def)
qed

lemma dec_members_bad:
  "\<exists>r \<in> set recs. time_parse tc (fst (snd r)) = None \<Longrightarrow>
     fst (dec_members (map_member tc) (map (\<lambda>r. (fst r, record_json r)) recs) acc) \<noteq> DecOK"
proof (induction recs arbitrary: acc)
  case Nil
  then show ?case by simp
next
  case (Cons r recs)
  show ?case
  proof (cases "time_parse tc (fst (snd r))")
    case None
    from dec_members_Cons_bad [where f = "map_member tc" and k = "fst r"
        and v = "record_json r" and x = acc, OF map_member_bad [OF None]]
    show ?thesis by simp
  next
    case (Some t)
    with Cons.prems have "\<exists>r \<in> set recs. time_parse tc (fst (snd r)) = None" by auto
    from Cons.IH [OF this, of "AList.update (fst r) (rec_pf tc r) acc"] Some show ?thesis
      by (cases "dec_members (map_member tc) (map (\<lambda>r. (fst r, record_json r)) recs)
                   (AList.update (fst r) (rec_pf tc r) acc)")
         (simp add: map_member_ok dec_both_OK)
  qed
qed

lemma Unmarshal_State_legacy_document:
  "fst (Unmarshal_State tc (legacy_document lf lts recs) s0) = DecTypeError
   \<and> CardID (snd (Unmarshal_State tc (legacy_document lf lts recs) s0)) = CardID s0"
  by (simp add: legacy_document_def State_field_def fold_fields)

lemma Unmarshal_LegacyState_current_document:
  "fst (Unmarshal_LegacyState tc (current_document lts recs) l0) \<noteq> DecOK"
  by (simp add: current_document_def LegacyState_field_def fold_fields)

lemma Unmarshal_LegacyState_legacy_document:
  "Unmarshal_LegacyState tc (legacy_document lf lts recs)
      \<lparr>LastProcessedFile = [], LastProcessedTimestamp = time_zero, LegacyProcessedFiles = []\<rparr> = l
   \<Longrightarrow> (case time_parse tc lts of
          None \<Rightarrow> fst l \<noteq> DecOK
        | Some t \<Rightarrow>
            if \<exists>r \<in> set recs. time_parse tc (fst (snd r)) = None then fst l \<noteq> DecOK
            else l = (DecOK, \<lparr>LastProcessedFile = lf, LastProcessedTimestamp = t,
                              LegacyProcessedFiles = map (rec_pf tc) recs\<rparr>))"
proof (cases "time_parse tc lts")
  case None
  assume "Unmarshal_LegacyState tc (legacy_document lf lts recs)
      \<lparr>LastProcessedFile = [], LastProcessedTimestamp = time_zero, LegacyProcessedFiles = []\<rparr> = l"
  with None show ?thesis
    by (auto simp: legacy_document_def LegacyState_field_def fold_fields dec_both_OK
        split: prod.splits if_splits dec_status.splits)
next
  case (Some t)
  assume l: "Unmarshal_LegacyState tc (legacy_document lf lts recs)
      \<lparr>LastProcessedFile = [], LastProcessedTimestamp = time_zero, LegacyProcessedFiles = []\<rparr> = l"
  show ?thesis
  proof (cases "\<exists>r \<in> set recs. time_parse tc (fst (snd r)) = None")
    case True
    obtain st x where de: "dec_elements tc (map record_json recs) = (st, x)"
      by (cases "dec_elements tc (map record_json recs)")
    with dec_elements_bad [OF True] have "st \<noteq> DecOK" by simp
    with de l Some True show ?thesis
      by (cases st) (auto simp: legacy_document_def LegacyState_field_def fold_fields)
  next
    case False
    then have "\<forall>r \<in> set recs. time_parse tc (fst (snd r)) \<noteq> None" by simp
    from dec_elements_ok [OF this] l Some False show ?thesis
      by (auto simp: legacy_document_def LegacyState_field_def fold_fields)
  qed
qed

lemma Unmarshal_State_current_document:
  "Unmarshal_State tc (current_document lts recs)
      \<lparr>Version = 2, CardID = [], LastRun = time_zero, ProcessedFiles = [], statePath = path\<rparr> = r
   \<Longrightarrow> (case time_parse tc lts of
          None \<Rightarrow> fst r \<noteq> DecOK
        | Some t \<Rightarrow>
            if \<exists>r \<in> set recs. time_parse tc (fst (snd r)) = None then fst r \<noteq> DecOK
            else r = (DecOK, \<lparr>Version = 2, CardID = [], LastRun = t,
                              ProcessedFiles = migrate_loop (map (rec_pf tc) recs) [],
                              statePath = path\<rparr>))"
proof (cases "time_parse tc lts")
  case None
  assume "Unmarshal_State tc (current_document lts recs)
      \<lparr>Version = 2, CardID = [], LastRun = time_zero, ProcessedFiles = [], statePath = path\<rparr> = r"
  with None show ?thesis
    by (auto simp: current_document_def State_field_def fold_fields dec_both_OK
        split: prod.splits if_splits dec_status.splits)
next
  case (Some t)
  assume r: "Unmarshal_State tc (current_document lts recs)
      \<lparr>Version = 2, CardID = [], LastRun = time_zero, ProcessedFiles = [], statePath = path\<rparr> = r"
  show ?thesis
  proof (cases "\<exists>r \<in> set recs. time_parse tc (fst (snd r)) = None")
    case True
    obtain st x where
      de: "dec_members (map_member tc) (map (\<lambda>r. (fst r, record_json r)) recs) [] = (st, x)"
      by (cases "dec_members (map_member tc) (map (\<lambda>r. (fst r, record_json r)) recs) []")
    with dec_members_bad [OF True, of "[]"] have "st \<noteq> DecOK" by simp
    with de r Some True show ?thesis
      by (cases st) (auto simp: current_document_def State_field_def fold_fields)
  next
    case False
    then have "\<forall>r \<in> set recs. time_parse tc (fst (snd r)) \<noteq> None" by simp
    from dec_members_ok [OF this, of "[]"] r Some False show ?thesis
      by (auto simp: current_document_def State_field_def fold_fields)
  qed
qed

text \<open>
  C4, as the code has it: when the file names, the profiles and the card ID of the state
  are valid UTF-8 and \<open>Save\<close> has written the state, \<open>Load\<close> of the file gives a state
  with the same file names as keys and, under each, the same profile (and file name
  field); version, card ID and path are the same too. The other hypotheses are the
  invariant of a Go map, that the encoder accepted the state, and the library's contract
  that a time it has written can be read. Loading a legacy document, a list of records,
  gives the same state as loading the document of the current schema that holds the same
  records under their file names, and fails when that fails.
\<close>

theorem save_load_round_trip:
  assumes codec: "\<forall>t str. time_format tc t = Some str \<longrightarrow> time_parse tc str \<noteq> None"
    and d: "distinct (map fst (ProcessedFiles s))"
    and v: "\<forall>e \<in> set (ProcessedFiles s). valid_utf8 (fst e) \<and> valid_utf8 (Filename (snd e))
                                          \<and> valid_utf8 (ProfileUsed (snd e))"
    and vc: "valid_utf8 (CardID s)"
    and m: "MarshalIndent tc s = Some doc"
  shows "(\<exists>s'. Load tc (statePath s) True
                 (ReadFile (run_steps (Save_steps tc s) fs) (statePath s)) = Inr (s', [])
            \<and> fst ` set (ProcessedFiles s') = fst ` set (ProcessedFiles s)
            \<and> (\<forall>k. map_option ProfileUsed (map_of (ProcessedFiles s') k) =
                     map_option ProfileUsed (map_of (ProcessedFiles s) k))
            \<and> (\<forall>k. map_option Filename (map_of (ProcessedFiles s') k) =
                     map_option Filename (map_of (ProcessedFiles s) k))
            \<and> distinct (map fst (ProcessedFiles s'))
            \<and> Version s' = Version s \<and> CardID s' = CardID s \<and> statePath s' = statePath s)
     \<and> loaded_state (Load tc path True (ReadData (Document (legacy_document lf lts recs)))) =
         loaded_state (Load tc path True (ReadData (Document (current_document lts recs))))"
proof
  let ?m = "map (\<lambda>e. (fst e, reloaded tc (snd e))) (sort_key fst (ProcessedFiles s))"
  from Load_after_Save [where fs = fs, OF codec d v vc m] obtain t where
    l: "Load tc (statePath s) True (ReadFile (run_steps (Save_steps tc s) fs) (statePath s)) =
           Inr (\<lparr>Version = Version s, CardID = CardID s, LastRun = t,
                  ProcessedFiles = ?m, statePath = statePath s\<rparr>, [])"
    by blast
  have keys: "map fst ?m = map fst (sort_key fst (ProcessedFiles s))"
    by (simp add: comp_def)
  have k1: "fst ` set ?m = fst ` set (ProcessedFiles s)"
    by (simp add: image_image)
  have k2: "distinct (map fst ?m)"
    unfolding keys using d by (simp add: distinct_map)
  have mo: "\<And>k. map_of ?m k = map_option (reloaded tc) (map_of (ProcessedFiles s) k)"
    by (rule map_of_reloaded_sorted [OF d])
  have p: "\<And>k. map_option ProfileUsed (map_of ?m k) =
                 map_option ProfileUsed (map_of (ProcessedFiles s) k)"
    unfolding mo by (simp add: option.map_comp comp_def reloaded_def)
  have f: "\<And>k. map_option Filename (map_of ?m k) =
                 map_option Filename (map_of (ProcessedFiles s) k)"
    unfolding mo by (simp add: option.map_comp comp_def reloaded_def)
  show "\<exists>s'. Load tc (statePath s) True
                 (ReadFile (run_steps (Save_steps tc s) fs) (statePath s)) = Inr (s', [])
            \<and> fst ` set (ProcessedFiles s') = fst ` set (ProcessedFiles s)
            \<and> (\<forall>k. map_option ProfileUsed (map_of (ProcessedFiles s') k) =
                     map_option ProfileUsed (map_of (ProcessedFiles s) k))
            \<and> (\<forall>k. map_option Filename (map_of (ProcessedFiles s') k) =
                     map_option Filename (map_of (ProcessedFiles s) k))
            \<and> distinct (map fst (ProcessedFiles s'))
            \<and> Version s' = Version s \<and> CardID s' = CardID s \<and> statePath s' = statePath s"
    using l k1 k2 p f
    by (intro exI [of _ "\<lparr>Version = Version s, CardID = CardID s, LastRun = t,
                  ProcessedFiles = ?m, statePath = statePath s\<rparr>"]) simp
next
  let ?s0 = "\<lparr>Version = 2, CardID = [], LastRun = time_zero, ProcessedFiles = [],
              statePath = path\<rparr>"
  let ?l0 = "\<lparr>LastProcessedFile = [], LastProcessedTimestamp = time_zero,
              LegacyProcessedFiles = []\<rparr>"
  note leg = Unmarshal_LegacyState_legacy_document [OF refl, of tc lf lts recs]
  note cur = Unmarshal_State_current_document [OF refl, of tc lts recs path]
  note sl = Unmarshal_State_legacy_document [of tc lf lts recs ?s0]
  note lc = Unmarshal_LegacyState_current_document [of tc lts recs ?l0]
  show "loaded_state (Load tc path True (ReadData (Document (legacy_document lf lts recs)))) =
         loaded_state (Load tc path True (ReadData (Document (current_document lts recs))))"
  proof (cases "time_parse tc lts")
    case None
    with leg cur sl lc show ?thesis
      by (simp add: Load_Document loaded_state_def Let_def)
  next
    case (Some t)
    show ?thesis
    proof (cases "\<exists>r \<in> set recs. time_parse tc (fst (snd r)) = None")
      case True
      with Some leg cur sl lc show ?thesis
        by (simp add: Load_Document loaded_state_def Let_def)
    next
      case False
      with Some leg cur have
        l: "Unmarshal_LegacyState tc (legacy_document lf lts recs) ?l0 =
              (DecOK, \<lparr>LastProcessedFile = lf, LastProcessedTimestamp = t,
                       LegacyProcessedFiles = map (rec_pf tc) recs\<rparr>)"
        and c: "Unmarshal_State tc (current_document lts recs) ?s0 =
              (DecOK, \<lparr>Version = 2, CardID = [], LastRun = t,
                       ProcessedFiles = migrate_loop (map (rec_pf tc) recs) [],
                       statePath = path\<rparr>)"
        by simp_all
      obtain x where sx: "Unmarshal_State tc (legacy_document lf lts recs) ?s0 = (DecTypeError, x)"
        and cx: "CardID x = []"
        using sl by (cases "Unmarshal_State tc (legacy_document lf lts recs) ?s0") simp
      have eq: "x\<lparr>ProcessedFiles := migrate_loop (map (rec_pf tc) recs) [], LastRun := t,
                  Version := 2, statePath := path\<rparr> =
                \<lparr>Version = 2, CardID = [], LastRun = t,
                 ProcessedFiles = migrate_loop (map (rec_pf tc) recs) [], statePath = path\<rparr>"
        using cx by (cases x) simp
      show ?thesis
        by (simp add: Load_Document loaded_state_def Let_def l c sx eq)
    qed
  qed
qed

theorem save_load_round_trip_witness:
  "(\<exists>s'. Load example_codec (statePath example_state) True
            (ReadFile (run_steps (Save_steps example_codec example_state) example_fs)
               (statePath example_state)) = Inr (s', [])
        \<and> fst ` set (ProcessedFiles s') = {''A.ORF'', ''Z.ORF''}
        \<and> map_option ProfileUsed (map_of (ProcessedFiles s') ''Z.ORF'') = Some ''vivid'')
   \<and> loaded_state (Load example_codec ''/s.json'' True
        (ReadData (Document (legacy_document ''B.ORF'' ''II''
           [(''A.ORF'', ''I'', ''vivid''), (''B.ORF'', ''II'', [])]))))
     = Inr \<lparr>Version = 2, CardID = [], LastRun = 2,
            ProcessedFiles =
              [(''A.ORF'', \<lparr>Filename = ''A.ORF'', ProcessedAt = 1, ProfileUsed = ''vivid''\<rparr>),
               (''B.ORF'', \<lparr>Filename = ''B.ORF'', ProcessedAt = 2, ProfileUsed = []\<rparr>)],
            statePath = ''/s.json''\<rparr>"
proof -
  let ?recs = "[(''A.ORF'', ''I'', ''vivid''), (''B.ORF'', ''II'', [])]"
  have c: "\<forall>t str. time_format example_codec t = Some str
             \<longrightarrow> time_parse example_codec str \<noteq> None"
    by (auto simp: example_codec_def split: if_splits)
  have d: "distinct (map fst (ProcessedFiles example_state))"
    by (simp add: example_state_def)
  have v: "\<forall>e \<in> set (ProcessedFiles example_state).
             valid_utf8 (fst e) \<and> valid_utf8 (Filename (snd e)) \<and> valid_utf8 (ProfileUsed (snd e))"
    by code_simp
  have vc: "valid_utf8 (CardID example_state)" by code_simp
  have m: "MarshalIndent example_codec example_state = Some example_doc" by code_simp
  have k: "fst ` set (ProcessedFiles example_state) = {''A.ORF'', ''Z.ORF''}"
    by (auto simp: example_state_def)
  have z: "map_option ProfileUsed (map_of (ProcessedFiles example_state) ''Z.ORF'') = Some ''vivid''"
    by (simp add: example_state_def)
  have cur: "loaded_state (Load example_codec ''/s.json'' True
        (ReadData (Document (current_document ''II'' ?recs))))
     = Inr \<lparr>Version = 2, CardID = [], LastRun = 2,
            ProcessedFiles =
              [(''A.ORF'', \<lparr>Filename = ''A.ORF'', ProcessedAt = 1, ProfileUsed = ''vivid''\<rparr>),
               (''B.ORF'', \<lparr>Filename = ''B.ORF'', ProcessedAt = 2, ProfileUsed = []\<rparr>)],
            statePath = ''/s.json''\<rparr>"
    by code_simp
  note rt = save_load_round_trip [OF c d v vc m, of example_fs "''/s.json''" "''B.ORF''" "''II''"
      ?recs]
  from rt [THEN conjunct1] obtain s' where
    l: "Load example_codec (statePath example_state) True
          (ReadFile (run_steps (Save_steps example_codec example_state) example_fs)
             (statePath example_state)) = Inr (s', [])"
    and ks: "fst ` set (ProcessedFiles s') = fst ` set (ProcessedFiles example_state)"
    and ps: "\<forall>k. map_option ProfileUsed (map_of (ProcessedFiles s') k) =
                 map_option ProfileUsed (map_of (ProcessedFiles example_state) k)"
    by blast
  have first: "\<exists>s'. Load example_codec (statePath example_state) True
            (ReadFile (run_steps (Save_steps example_codec example_state) example_fs)
               (statePath example_state)) = Inr (s', [])
        \<and> fst ` set (ProcessedFiles s') = {''A.ORF'', ''Z.ORF''}
        \<and> map_option ProfileUsed (map_of (ProcessedFiles s') ''Z.ORF'') = Some ''vivid''"
    using l ks [unfolded k] ps [rule_format, of "''Z.ORF''", unfolded z] by (intro exI conjI)
  from first trans [OF rt [THEN conjunct2] cur] show ?thesis by (rule conjI)
qed

text \<open>
  The claim that \<open>Save\<close> and \<open>Load\<close> reproduce the keys of every state fails on file
  names that are not valid UTF-8: the encoder writes \<open>U+FFFD\<close> for the offending
  byte, so the two names of \<open>bad_names_state\<close> are written as one name, and \<open>Load\<close>
  returns a single entry under a key that the state did not hold.
\<close>

theorem save_load_round_trip_counterexample:
  "distinct (map fst (ProcessedFiles bad_names_state))
   \<and> map fst (ProcessedFiles bad_names_state) =
       [[CHR ''P'', CHR 0xFE, CHR ''.'', CHR ''O'', CHR ''R'', CHR ''F''],
        [CHR ''P'', CHR 0xFF, CHR ''.'', CHR ''O'', CHR ''R'', CHR ''F'']]
   \<and> Save example_codec False bad_names_state = None
   \<and> loaded_state (Load example_codec (statePath bad_names_state) True
        (ReadFile (run_steps (Save_steps example_codec bad_names_state) example_fs)
           (statePath bad_names_state)))
     = Inr \<lparr>Version = 2, CardID = [], LastRun = 5,
            ProcessedFiles =
              [([CHR ''P'', CHR 0xEF, CHR 0xBF, CHR 0xBD, CHR ''.'', CHR ''O'', CHR ''R'', CHR ''F''],
                \<lparr>Filename = [CHR ''P'', CHR 0xEF, CHR 0xBF, CHR 0xBD, CHR ''.'', CHR ''O'',
                              CHR ''R'', CHR ''F''],
                 ProcessedAt = 4, ProfileUsed = ''mono''\<rparr>)],
            statePath = ''/home/u/.camera-to-immich/state.json''\<rparr>"
  by code_simp

end
